theory Spec2Isabelle
  imports Main "HOL-Library.Word" "HOL-Library.AList"
begin

unbundle bit_operations_syntax

section \<open>The WebSocket frame codec (WebSocketTransport.js)\<close>

text \<open>
  Buffers are lists of bytes. JavaScript numbers that hold lengths and offsets are
  natural numbers; the one place where the source truncates a number to 32 bits
  (\<^verbatim>\<open>payload.length >>> 0\<close>) is written out as \<open>mod 2 ^ 32\<close>.
\<close>

type_synonym byte = "8 word"

text \<open>
  \<^verbatim>\<open>buf.writeUInt16BE(v, 0)\<close> on a fresh 2-byte buffer and
  \<^verbatim>\<open>buf.writeUInt32BE(v, 0)\<close> on a 4-byte one. The platform raises when the value
  does not fit; every call of the source passes a value below the bound (a length below
  65536, the constant 0, or a number already cut to 32 bits), so the bytes are all that
  is modelled.
\<close>

definition writeUInt16BE :: "nat \<Rightarrow> byte list" where
  "writeUInt16BE v = [of_nat (v div 256), of_nat (v mod 256)]"

definition writeUInt32BE :: "nat \<Rightarrow> byte list" where
  "writeUInt32BE v =
     [of_nat (v div 16777216), of_nat (v div 65536 mod 256),
      of_nat (v div 256 mod 256), of_nat (v mod 256)]"

text \<open>
  \<^verbatim>\<open>buffer.readUInt16BE(off)\<close> and \<^verbatim>\<open>buffer.readUInt32BE(off)\<close>. The source reads only
  after it has checked that the buffer is long enough.
\<close>

definition readUInt16BE :: "byte list \<Rightarrow> nat \<Rightarrow> nat" where
  "readUInt16BE b off = unat (b ! off) * 256 + unat (b ! (off + 1))"

definition readUInt32BE :: "byte list \<Rightarrow> nat \<Rightarrow> nat" where
  "readUInt32BE b off =
     unat (b ! off) * 16777216 + unat (b ! (off + 1)) * 65536 +
     unat (b ! (off + 2)) * 256 + unat (b ! (off + 3))"

text \<open>
  The masking loop \<^verbatim>\<open>for (i...) out[i] = body[i] ^ maskKey[i & 3]\<close>, shared by
  \<^verbatim>\<open>buildFrame\<close> and \<^verbatim>\<open>tryParseFrame\<close>. The key is a 4-byte buffer, and \<^verbatim>\<open>i & 3\<close>
  is \<open>i mod 4\<close>.
\<close>

definition xorMask :: "byte list \<Rightarrow> byte list \<Rightarrow> byte list" where
  "xorMask maskKey body = map (\<lambda>i. body ! i XOR maskKey ! (i mod 4)) [0..<length body]"

text \<open>
  \<^verbatim>\<open>buildFrame({ opcode, payload, mask })\<close>. The four bytes that
  \<^verbatim>\<open>crypto.randomBytes(4)\<close> returns are the parameter \<open>rnd\<close>; they are used only when
  the flag \<open>msk\<close> (the source's \<^verbatim>\<open>mask\<close>) is set.
\<close>

definition buildFrame :: "nat \<Rightarrow> byte list \<Rightarrow> bool \<Rightarrow> byte list \<Rightarrow> byte list" where
  "buildFrame opc payload msk rnd =
     (let finOpcode = (0x80 :: byte) OR (of_nat opc AND 0x0f);
          len = length payload mod 2 ^ 32;
          lenByte = (if len < 126 then len else if len < 65536 then 126 else 127);
          extLen = (if len < 126 then []
                    else if len < 65536 then writeUInt16BE len
                    else writeUInt32BE 0 @ writeUInt32BE len);
          maskKey = (if msk then rnd else []);
          body = (if msk then xorMask rnd payload else payload);
          header = [finOpcode, (if msk then 0x80 else 0) OR of_nat lenByte]
      in header @ extLen @ maskKey @ body)"

datatype ws_error =
    FragmentedNotSupported
  | ExpectedMaskedClientFrame
  | UnexpectedMaskedServerFrame
  | FrameTooLarge
  | WsPayloadTooLarge
  | UnsupportedWsOpcode

record ws_frame =
  opcode :: nat
  payload :: "byte list"

text \<open>
  \<^verbatim>\<open>tryParseFrame(buffer, { expectMasked, maxPayloadBytes })\<close>. A thrown error is
  \<open>Inl\<close>, the result \<^verbatim>\<open>null\<close> ("need more data") is \<open>Inr None\<close>, and a parsed frame with
  the remaining tail is \<open>Inr (Some (frame, rest))\<close>. The function is written in the three
  stages of the source: the extended length (lines 85 to 96), which yields the length and
  the offset behind it; the ceiling check, mask key and payload (lines 98 to 117); and
  the header bits with the checks on them (lines 72 to 83).
\<close>

definition parseLength :: "byte list \<Rightarrow> nat \<Rightarrow> ws_error + (nat \<times> nat) option" where
  "parseLength buffer len7 =
     (if len7 = 126 then
        (if length buffer < 2 + 2 then Inr None
         else Inr (Some (readUInt16BE buffer 2, 4)))
      else if len7 = 127 then
        (if length buffer < 2 + 8 then Inr None
         else if readUInt32BE buffer 2 \<noteq> 0 then Inl FrameTooLarge
         else Inr (Some (readUInt32BE buffer 6, 10)))
      else Inr (Some (len7, 2)))"

definition parseBody ::
  "byte list \<Rightarrow> nat \<Rightarrow> bool \<Rightarrow> nat \<Rightarrow> nat \<Rightarrow> nat \<Rightarrow> ws_error + (ws_frame \<times> byte list) option" where
  "parseBody buffer opc masked maxPayloadBytes len off =
     (if len > maxPayloadBytes then Inl WsPayloadTooLarge
      else if masked \<and> length buffer < off + 4 then Inr None
      else
        (let offset = (if masked then off + 4 else off) in
         if length buffer < offset + len then Inr None
         else
           (let raw = take len (drop offset buffer);
                rest = drop (offset + len) buffer;
                pl = (if masked then xorMask (take 4 (drop off buffer)) raw else raw)
            in Inr (Some (\<lparr>opcode = opc, payload = pl\<rparr>, rest)))))"

definition tryParseFrame ::
  "byte list \<Rightarrow> bool \<Rightarrow> nat \<Rightarrow> ws_error + (ws_frame \<times> byte list) option" where
  "tryParseFrame buffer expectMasked maxPayloadBytes =
     (if length buffer < 2 then Inr None
      else
        (let b0 = buffer ! 0;
             b1 = buffer ! 1;
             fin = (b0 AND 0x80 \<noteq> 0);
             opc = unat (b0 AND 0x0f);
             masked = (b1 AND 0x80 \<noteq> 0);
             len7 = unat (b1 AND 0x7f)
         in if \<not> fin then Inl FragmentedNotSupported
            else if expectMasked \<and> \<not> masked then Inl ExpectedMaskedClientFrame
            else if \<not> expectMasked \<and> masked then Inl UnexpectedMaskedServerFrame
            else
              (case parseLength buffer len7 of
                 Inl e \<Rightarrow> Inl e
               | Inr None \<Rightarrow> Inr None
               | Inr (Some (len, off)) \<Rightarrow>
                   parseBody buffer opc masked maxPayloadBytes len off)))"


text \<open>
  What a frame header declares as its payload length, as the frame format defines it:
  the 7-bit indicator itself below 126, the 16-bit big-endian field for 126, the whole
  64-bit big-endian field for 127. The result pairs the declared length with the offset
  at which the length field ends; it is \<open>None\<close> while the length field is incomplete.
  This is the reading of the wire format that the claims about oversized frames refer
  to; \<open>tryParseFrame\<close> above does not use it.
\<close>

definition declaredLength :: "byte list \<Rightarrow> (nat \<times> nat) option" where
  "declaredLength buffer =
     (if length buffer < 2 then None
      else
        (let len7 = unat (buffer ! 1 AND 0x7f)
         in if len7 = 126 then
              (if length buffer < 4 then None else Some (readUInt16BE buffer 2, 4))
            else if len7 = 127 then
              (if length buffer < 10 then None
               else Some (readUInt32BE buffer 2 * 2 ^ 32 + readUInt32BE buffer 6, 10))
            else Some (len7, 2)))"

subsection \<open>Bytes and big-endian numbers\<close>

lemma bit7_of_small_nat: "n < 128 \<Longrightarrow> \<not> bit (of_nat n :: byte) 7"
proof -
  assume "n < 128"
  then have "\<not> bit n 7" by (simp add: bit_iff_odd)
  then show ?thesis by (simp add: bit_of_nat_iff)
qed

lemma and_128_eq_0_iff: "((a :: byte) AND 128 = 0) = (\<not> bit a 7)"
  using and_exp_eq_0_iff_not_bit [of a 7] by simp

lemma bit7_of_128: "bit (128 :: byte) 7"
  using bit_exp_iff [where ?'a = byte, of 7 7] by simp

lemma lenByte_mask_bit:
  fixes n :: nat
  assumes "n < 128"
  shows "(((if m then 0x80 else 0) OR of_nat n :: byte) AND 0x80 \<noteq> 0) = m"
  using bit7_of_small_nat [OF assms] by (simp add: and_128_eq_0_iff bit_or_iff bit7_of_128)

lemma lenByte_len7:
  fixes n :: nat
  assumes "n < 128"
  shows "unat (((if m then 0x80 else 0) OR of_nat n :: byte) AND 0x7f) = n"
proof -
  have e: "(0x7f :: byte) = mask 7" by (simp add: mask_eq_exp_minus_1)
  have f: "(0x80 :: byte) = push_bit 7 1" by simp
  have "take_bit 7 n = n" using assms by (simp add: take_bit_nat_eq_self_iff)
  moreover have "n mod 256 = n" using assms by simp
  ultimately show ?thesis
    unfolding e f
    by (simp add: unsigned_take_bit_eq unat_of_nat flip: take_bit_eq_mask)
qed

lemma uint16_bytes:
  "n < 65536 \<Longrightarrow> unat (of_nat (n div 256) :: byte) * 256 + unat (of_nat (n mod 256) :: byte) = n"
  by (simp add: unat_of_nat)

lemma nat_split_4_bytes:
  fixes n :: nat
  shows "n div 16777216 * 16777216 + n div 65536 mod 256 * 65536 +
         n div 256 mod 256 * 256 + n mod 256 = n"
proof -
  have a: "n div 65536 = n div 256 div 256" by (simp add: div_mult2_eq)
  have b: "n div 16777216 = n div 256 div 256 div 256" by (simp add: div_mult2_eq)
  have c: "n div 256 div 256 div 256 * 256 + n div 256 div 256 mod 256 = n div 256 div 256"
    by (rule div_mult_mod_eq)
  have d: "n div 256 div 256 * 256 + n div 256 mod 256 = n div 256"
    by (rule div_mult_mod_eq)
  have e: "n div 256 * 256 + n mod 256 = n"
    by (rule div_mult_mod_eq)
  show ?thesis unfolding a b using c d e by linarith
qed

lemma uint32_bytes:
  "n < 2 ^ 32 \<Longrightarrow>
   unat (of_nat (n div 16777216) :: byte) * 16777216 +
   unat (of_nat (n div 65536 mod 256) :: byte) * 65536 +
   unat (of_nat (n div 256 mod 256) :: byte) * 256 +
   unat (of_nat (n mod 256) :: byte) = n"
proof -
  assume "n < 2 ^ 32"
  then have "n div 16777216 < 256" by simp
  then show ?thesis using nat_split_4_bytes [of n] by (simp add: unat_of_nat)
qed

subsection \<open>Masking\<close>

lemma length_xorMask [simp]: "length (xorMask k b) = length b"
  by (simp add: xorMask_def)

lemma xorMask_involution: "xorMask k (xorMask k p) = p"
  by (rule nth_equalityI) (simp_all add: xorMask_def ac_simps flip: xor.assoc)

subsection \<open>Encode, then parse\<close>

lemma tryParseFrame_header:
  assumes "b0 AND 0x80 \<noteq> 0" "(b1 AND 0x80 \<noteq> 0) = m"
  shows "tryParseFrame (b0 # b1 # bs) m mx =
     (case parseLength (b0 # b1 # bs) (unat (b1 AND 0x7f)) of
        Inl e \<Rightarrow> Inl e
      | Inr None \<Rightarrow> Inr None
      | Inr (Some (len, off)) \<Rightarrow>
          parseBody (b0 # b1 # bs) (unat (b0 AND 0x0f)) m mx len off)"
  using assms by (auto simp add: tryParseFrame_def Let_def)

lemma buildFrame_binary_shape:
  assumes "length P < 2 ^ 32"
  shows "\<exists>b0 b1. b0 AND 0x80 \<noteq> 0 \<and> unat (b0 AND 0x0f) = 2 \<and> (b1 AND 0x80 \<noteq> 0) = m \<and>
     unat (b1 AND 0x7f) =
       (if length P < 126 then length P else if length P < 65536 then 126 else 127) \<and>
     buildFrame 2 P m rnd = b0 # b1 #
       (if length P < 126 then [] else if length P < 65536 then writeUInt16BE (length P)
        else writeUInt32BE 0 @ writeUInt32BE (length P)) @
       (if m then rnd else []) @ (if m then xorMask rnd P else P)"
proof -
  let ?n = "if length P < 126 then length P else if length P < 65536 then 126 else (127::nat)"
  have n: "?n < 128" by simp
  have l: "length P mod 4294967296 = length P" using assms by simp
  show ?thesis
    apply (rule exI [of _ "(0x80 :: byte) OR (of_nat 2 AND 0x0f)"])
    apply (rule exI [of _ "(if m then 0x80 else 0) OR of_nat ?n"])
    apply (intro conjI)
        apply simp
       apply simp
      apply (rule lenByte_mask_bit [OF n])
     apply (rule lenByte_len7 [OF n])
    apply (simp add: buildFrame_def Let_def l)
    done
qed

lemma roundtrip_short:
  assumes "length P < 126" "length P \<le> mx" "length rnd = 4"
  shows "tryParseFrame (buildFrame 2 P m rnd) m mx =
         Inr (Some (\<lparr>opcode = 2, payload = P\<rparr>, []))"
proof -
  have "length P < 2 ^ 32" using assms by simp
  from buildFrame_binary_shape [OF this, of m rnd] obtain b0 b1 where
    h: "b0 AND 0x80 \<noteq> 0" "unat (b0 AND 0x0f) = 2" "(b1 AND 0x80 \<noteq> 0) = m"
       "unat (b1 AND 0x7f) = length P"
       "buildFrame 2 P m rnd =
          b0 # b1 # (if m then rnd else []) @ (if m then xorMask rnd P else P)"
    using assms by auto
  show ?thesis
    unfolding h(5) tryParseFrame_header [OF h(1) h(3)] h(2) h(4)
    using assms by (simp add: parseLength_def parseBody_def xorMask_involution)
qed

lemma roundtrip_uint16:
  assumes "126 \<le> length P" "length P < 65536" "length P \<le> mx" "length rnd = 4"
  shows "tryParseFrame (buildFrame 2 P m rnd) m mx =
         Inr (Some (\<lparr>opcode = 2, payload = P\<rparr>, []))"
proof -
  have "length P < 2 ^ 32" using assms by simp
  from buildFrame_binary_shape [OF this, of m rnd] obtain b0 b1 where
    h: "b0 AND 0x80 \<noteq> 0" "unat (b0 AND 0x0f) = 2" "(b1 AND 0x80 \<noteq> 0) = m"
       "unat (b1 AND 0x7f) = 126"
       "buildFrame 2 P m rnd = b0 # b1 # writeUInt16BE (length P) @
          (if m then rnd else []) @ (if m then xorMask rnd P else P)"
    using assms by auto
  show ?thesis
    unfolding h(5) tryParseFrame_header [OF h(1) h(3)] h(2) h(4)
    using assms
    by (simp add: parseLength_def parseBody_def xorMask_involution writeUInt16BE_def
        readUInt16BE_def uint16_bytes)
qed

lemma roundtrip_uint64:
  assumes "65536 \<le> length P" "length P < 2 ^ 32" "length P \<le> mx" "length rnd = 4"
  shows "tryParseFrame (buildFrame 2 P m rnd) m mx =
         Inr (Some (\<lparr>opcode = 2, payload = P\<rparr>, []))"
proof -
  from buildFrame_binary_shape [OF assms(2), of m rnd] obtain b0 b1 where
    h: "b0 AND 0x80 \<noteq> 0" "unat (b0 AND 0x0f) = 2" "(b1 AND 0x80 \<noteq> 0) = m"
       "unat (b1 AND 0x7f) = 127"
       "buildFrame 2 P m rnd = b0 # b1 # (writeUInt32BE 0 @ writeUInt32BE (length P)) @
          (if m then rnd else []) @ (if m then xorMask rnd P else P)"
    using assms by auto
  show ?thesis
    unfolding h(5) tryParseFrame_header [OF h(1) h(3)] h(2) h(4)
    using assms
    by (simp add: parseLength_def parseBody_def xorMask_involution writeUInt32BE_def
        readUInt32BE_def uint32_bytes)
qed

text \<open>
  Claim C1, as the code has it. A payload \<open>P\<close> of at most \<open>mx\<close> bytes (the configured
  maximum) and of fewer than \<open>2 ^ 32\<close> bytes, built into a binary frame by \<open>buildFrame\<close>
  in either masking direction (with any four key bytes) and parsed by \<open>tryParseFrame\<close>
  with the matching expectation, gives opcode 2, the payload \<open>P\<close> and an empty tail.
\<close>

theorem ws_binary_roundtrip:
  assumes "length P \<le> mx" "length P < 2 ^ 32" "length rnd = 4"
  shows "tryParseFrame (buildFrame 2 P m rnd) m mx =
         Inr (Some (\<lparr>opcode = 2, payload = P\<rparr>, []))"
proof -
  consider "length P < 126" | "126 \<le> length P" "length P < 65536" | "65536 \<le> length P"
    by linarith
  then show ?thesis
  proof cases
    case 1
    then show ?thesis using assms by (simp add: roundtrip_short)
  next
    case 2
    then show ?thesis using assms by (simp add: roundtrip_uint16)
  next
    case 3
    then show ?thesis using assms by (simp add: roundtrip_uint64)
  qed
qed

theorem ws_binary_roundtrip_witness:
  "tryParseFrame (buildFrame 2 [1, 2, 3] True [9, 8, 7, 6]) True 3 =
   Inr (Some (\<lparr>opcode = 2, payload = [1, 2, 3]\<rparr>, []))"
  using ws_binary_roundtrip [of "[1, 2, 3]" 3 "[9, 8, 7, 6]" True] by simp

text \<open>
  Claim C1 as the spec states it, for every payload up to the configured maximum, fails
  when the maximum is configured at \<open>2 ^ 32\<close> or more: \<open>buildFrame\<close> cuts the length to
  32 bits, so a payload of \<open>2 ^ 32\<close> zero bytes is framed with the length 0, and the
  parser returns an empty payload and the whole body as the tail.
\<close>

theorem ws_binary_roundtrip_counterexample:
  "length (replicate (2 ^ 32) (0 :: byte)) \<le> 2 ^ 32 \<and>
   tryParseFrame (buildFrame 2 (replicate (2 ^ 32) 0) False []) False (2 ^ 32) =
     Inr (Some (\<lparr>opcode = 2, payload = []\<rparr>, replicate (2 ^ 32) 0)) \<and>
   tryParseFrame (buildFrame 2 (replicate (2 ^ 32) 0) False []) False (2 ^ 32) \<noteq>
     Inr (Some (\<lparr>opcode = 2, payload = replicate (2 ^ 32) 0\<rparr>, []))"
  by (simp add: buildFrame_def tryParseFrame_def parseLength_def parseBody_def Let_def)

subsection \<open>Oversized frames\<close>

lemma declaredLength_offset:
  "declaredLength buffer = Some (n, off) \<Longrightarrow> 2 \<le> off \<and> off \<le> length buffer"
  by (auto simp add: declaredLength_def Let_def split: if_splits)

lemma parseLength_take:
  assumes "declaredLength buffer = Some (n, off)"
  shows "parseLength (take off buffer) (unat (buffer ! 1 AND 0x7f)) =
         parseLength buffer (unat (buffer ! 1 AND 0x7f))"
proof -
  let ?l = "unat (buffer ! 1 AND 0x7f)"
  consider "?l = 126" | "?l = 127" | "?l \<noteq> 126" "?l \<noteq> 127" by blast
  then show ?thesis
  proof cases
    case 1
    then show ?thesis using assms
      by (simp add: declaredLength_def parseLength_def readUInt16BE_def split: if_splits)
  next
    case 2
    then show ?thesis using assms
      by (simp add: declaredLength_def parseLength_def readUInt32BE_def split: if_splits)
  next
    case 3
    then show ?thesis using assms
      by (simp add: declaredLength_def parseLength_def split: if_splits)
  qed
qed

lemma parseLength_declared:
  assumes "declaredLength buffer = Some (n, off)"
  shows "parseLength buffer (unat (buffer ! 1 AND 0x7f)) =
     (if unat (buffer ! 1 AND 0x7f) = 127 \<and> readUInt32BE buffer 2 \<noteq> 0 then Inl FrameTooLarge
      else Inr (Some (n, off)))"
proof -
  let ?l = "unat (buffer ! 1 AND 0x7f)"
  consider "?l = 126" | "?l = 127" | "?l \<noteq> 126" "?l \<noteq> 127" by blast
  then show ?thesis
  proof cases
    case 1
    then show ?thesis using assms
      by (simp add: declaredLength_def parseLength_def split: if_splits)
  next
    case 2
    then show ?thesis using assms
      by (auto simp add: declaredLength_def parseLength_def split: if_splits)
  next
    case 3
    then show ?thesis using assms
      by (auto simp add: declaredLength_def parseLength_def split: if_splits)
  qed
qed

lemma parseBody_over:
  "mx < len \<Longrightarrow> parseBody buffer opc masked mx len off = Inl WsPayloadTooLarge"
  by (simp add: parseBody_def)

lemma tryParseFrame_unfold:
  "2 \<le> length buffer \<Longrightarrow> tryParseFrame buffer em mx =
     (if buffer ! 0 AND 0x80 = 0 then Inl FragmentedNotSupported
      else if em \<and> buffer ! 1 AND 0x80 = 0 then Inl ExpectedMaskedClientFrame
      else if \<not> em \<and> buffer ! 1 AND 0x80 \<noteq> 0 then Inl UnexpectedMaskedServerFrame
      else (case parseLength buffer (unat (buffer ! 1 AND 0x7f)) of
                 Inl e \<Rightarrow> Inl e
               | Inr None \<Rightarrow> Inr None
               | Inr (Some (len, off)) \<Rightarrow>
                   parseBody buffer (unat (buffer ! 0 AND 0x0f)) (buffer ! 1 AND 0x80 \<noteq> 0) mx len off))"
  by (simp add: tryParseFrame_def Let_def del: One_nat_def)

text \<open>
  Claim C3. Whenever the length field of the header is complete and declares more than
  the configured maximum \<open>mx\<close> (a 64-bit length counts with its full value, and one with
  a nonzero upper half is rejected even when \<open>mx\<close> is larger), \<open>tryParseFrame\<close> throws,
  whatever follows the length field in the buffer: the result is the same on the buffer
  cut off at the end of the length field, where no mask key and no payload byte has
  arrived. The only allocation of payload size in the source (line 112) lies behind the
  throw.
\<close>

theorem tryParseFrame_rejects_oversize_at_header:
  assumes "declaredLength buffer = Some (n, off)"
    and "mx < n \<or> (unat (buffer ! 1 AND 0x7f) = 127 \<and> readUInt32BE buffer 2 \<noteq> 0)"
  shows "isl (tryParseFrame buffer em mx) \<and>
         tryParseFrame (take off buffer) em mx = tryParseFrame buffer em mx"
proof -
  from declaredLength_offset [OF assms(1)] have o: "2 \<le> off" "off \<le> length buffer" by simp_all
  then have l: "2 \<le> length buffer" "2 \<le> length (take off buffer)" by simp_all
  have t: "take off buffer ! 0 = buffer ! 0" "take off buffer ! 1 = buffer ! 1"
    using o by simp_all
  have p: "parseLength (take off buffer) (unat (buffer ! 1 AND 0x7f)) =
         parseLength buffer (unat (buffer ! 1 AND 0x7f))"
    by (rule parseLength_take [OF assms(1)])
  have a: "isl (tryParseFrame buffer em mx)"
    unfolding tryParseFrame_unfold [OF l(1)] parseLength_declared [OF assms(1)]
    using assms(2) by (auto simp add: parseBody_over)
  have b: "tryParseFrame (take off buffer) em mx = tryParseFrame buffer em mx"
    unfolding tryParseFrame_unfold [OF l(1)] tryParseFrame_unfold [OF l(2)] t p
      parseLength_declared [OF assms(1)]
    using assms(2) by (auto simp add: parseBody_over)
  show ?thesis using a b by simp
qed

theorem tryParseFrame_rejects_oversize_at_header_witness:
  "declaredLength [0x82, 0x7f, 0, 0, 0, 1, 0, 0, 0, 0] = Some (4294967296, 10) \<and>
   tryParseFrame [0x82, 0x7f, 0, 0, 0, 1, 0, 0, 0, 0] False 1048576 = Inl FrameTooLarge \<and>
   isl (tryParseFrame [0x82, 0x7f, 0, 0, 0, 1, 0, 0, 0, 0] False 1048576) \<and>
   declaredLength [0x82, 0xfe, 4, 0, 9, 9] = Some (1024, 4) \<and>
   tryParseFrame [0x82, 0xfe, 4, 0, 9, 9] True 1000 = Inl WsPayloadTooLarge \<and>
   tryParseFrame (take 4 [0x82, 0xfe, 4, 0, 9, 9]) True 1000 =
     tryParseFrame [0x82, 0xfe, 4, 0, 9, 9] True 1000"
  using
    tryParseFrame_rejects_oversize_at_header
      [of "[0x82, 0x7f, 0, 0, 0, 1, 0, 0, 0, 0]" 4294967296 10 1048576 False]
    tryParseFrame_rejects_oversize_at_header
      [of "[0x82, 0xfe, 4, 0, 9, 9]" 1024 4 1000 True]
  by (simp add: declaredLength_def readUInt32BE_def readUInt16BE_def tryParseFrame_def
      parseLength_def parseBody_def)


section \<open>Connections, events and the hello\<close>

text \<open>
  A socket, and the \<^verbatim>\<open>WsConnection\<close> object that wraps one, is known by a number: the
  source compares them by identity (\<^verbatim>\<open>this._peers.get(remotePeerId) === conn\<close>). The peer
  registry and the dial ledger are JavaScript \<^verbatim>\<open>Map\<close>s; they are association lists here,
  read with \<open>map_of\<close>, written with \<open>AList.update\<close> (which replaces the value of a key in
  place or appends a new key, as \<^verbatim>\<open>Map.set\<close> does) and \<open>AList.delete\<close>, and iterated
  in list order.
\<close>

type_synonym peer_id = string
type_synonym conn_id = nat

text \<open>
  A value that \<^verbatim>\<open>JSON.parse\<close> can return. The platform's parser itself (together with
  \<^verbatim>\<open>TextDecoder\<close>, which turns the payload bytes into the text it reads) is a parameter
  \<open>jsonParse\<close> of the handlers below: \<open>None\<close> where it throws. \<open>JObj\<close> lists the own
  properties of the parsed object.
\<close>

datatype json =
    JNull
  | JBool bool
  | JNum int
  | JStr string
  | JArr "json list"
  | JObj "(string \<times> json) list"

type_synonym json_parser = "byte list \<Rightarrow> json option"

text \<open>
  The hello check that both backends make on the parsed value:
  \<^verbatim>\<open>!obj || obj.t !== "hello" || typeof obj.peerId !== "string" || !obj.peerId\<close>
  rejects; otherwise \<^verbatim>\<open>obj.peerId\<close> is the remote PeerId. A value that is not an object
  has no property \<^verbatim>\<open>t\<close>.
\<close>

definition helloPeerId :: "json \<Rightarrow> peer_id option" where
  "helloPeerId obj =
     (case obj of
        JObj props \<Rightarrow>
          (if map_of props ''t'' \<noteq> Some (JStr ''hello'') then None
           else (case map_of props ''peerId'' of
                   Some (JStr p) \<Rightarrow> (if p = [] then None else Some p)
                 | _ \<Rightarrow> None))
      | _ \<Rightarrow> None)"

datatype transport_error =
    WsExpectedHelloTextFrame
  | WsInvalidHelloJSON
  | WsInvalidHelloFields
  | WsPeerIdMismatch
  | TcpFrameTooLarge
  | TcpInvalidHello
  | TcpInvalidHelloFields

text \<open>
  What a handler does to the outside, in order: the events the transport emits, and the
  calls it makes on sockets. \<open>WsSend c op bytes\<close> is
  \<^verbatim>\<open>socket.write(buildFrame({opcode, payload, mask}))\<close> on connection \<open>c\<close>, \<open>WsClose c\<close> is
  \<^verbatim>\<open>WsConnection.close()\<close> (which ends the socket's writable side with a close frame),
  \<open>SendHello c\<close> is the hello that both backends write when a socket is wired,
  \<open>TcpWrite\<close> is \<^verbatim>\<open>socket.write(encodeFrame(bytes))\<close>, \<open>SocketDestroy\<close> is
  \<^verbatim>\<open>socket.destroy()\<close>, \<open>NetConnect s key\<close> is the \<^verbatim>\<open>net.connect\<close> of \<^verbatim>\<open>_dial\<close> that creates
  the outbound socket \<open>s\<close>, and \<open>ServerClose\<close> closes the listening server.
\<close>

datatype effect =
    EmitError transport_error
  | EmitConnection peer_id bool
  | EmitDisconnection peer_id
  | EmitFrame peer_id "byte list"
  | WsSend conn_id nat "byte list"
  | WsClose conn_id
  | SendHello conn_id
  | TcpWrite conn_id "byte list"
  | SocketDestroy conn_id
  | NetConnect conn_id string
  | ServerClose

text \<open>
  The variables that \<^verbatim>\<open>_wireWsConn\<close> and \<^verbatim>\<open>_handleSocket\<close> close over for one connection.
\<close>

record wire =
  remotePeerId :: "peer_id option"
  closed :: bool
  outbound :: bool

definition newWire :: "bool \<Rightarrow> wire" where
  "newWire ob = \<lparr>remotePeerId = None, closed = False, outbound = ob\<rparr>"

text \<open>The fields that both transports have: \<^verbatim>\<open>_started\<close> and \<^verbatim>\<open>_peers\<close>.\<close>

record transport =
  started :: bool
  peers :: "(peer_id \<times> conn_id) list"

section \<open>WebSocketTransport\<close>

datatype ws_mode = Server | Client

text \<open>
  The promise \<^verbatim>\<open>waitHello\<close> of \<^verbatim>\<open>_startClient\<close>. While it is pending its two listeners
  \<^verbatim>\<open>onConn\<close> and \<^verbatim>\<open>onErr\<close> are registered on the transport; each removes both when it fires.
\<close>

datatype wait_hello = NoWait | Pending | Resolved | Rejected transport_error

record ws_transport = transport +
  mode :: "ws_mode option"
  url :: "string option"
  expectedPeerId :: "peer_id option"
  maxPayloadBytes :: nat
  uplink :: "conn_id option"
  uplinkPeerId :: "peer_id option"
  httpServer :: bool
  waitHello :: wait_hello

text \<open>
  \<^verbatim>\<open>this.emit(...)\<close> as far as the transport listens to itself: the listeners of
  \<^verbatim>\<open>waitHello\<close> (lines 470 to 483). Every emitted event is also recorded as an effect.
\<close>

definition ws_emitError :: "transport_error \<Rightarrow> ws_transport \<Rightarrow> ws_transport" where
  "ws_emitError e T = (if waitHello T = Pending then T\<lparr>waitHello := Rejected e\<rparr> else T)"

definition ws_emitConnection :: "peer_id \<Rightarrow> bool \<Rightarrow> ws_transport \<Rightarrow> ws_transport" where
  "ws_emitConnection p ob T =
     (if waitHello T = Pending \<and> ob then T\<lparr>uplinkPeerId := Some p, waitHello := Resolved\<rparr>
      else T)"

text \<open>The closure \<^verbatim>\<open>cleanup\<close> of \<^verbatim>\<open>_wireWsConn\<close> (lines 495 to 506) for connection \<open>c\<close>.\<close>

definition ws_cleanup ::
  "conn_id \<Rightarrow> wire \<times> ws_transport \<Rightarrow> (wire \<times> ws_transport) \<times> effect list" where
  "ws_cleanup c s =
     (case s of (w, T) \<Rightarrow>
        if closed w then ((w, T), [])
        else
          (let w1 = w\<lparr>closed := True\<rparr>;
               registered = (case remotePeerId w of
                               None \<Rightarrow> False
                             | Some p \<Rightarrow> map_of (peers T) p = Some c);
               T1 = (case remotePeerId w of
                       None \<Rightarrow> T
                     | Some p \<Rightarrow>
                         if registered then T\<lparr>peers := AList.delete p (peers T)\<rparr> else T);
               ev = (case remotePeerId w of
                       None \<Rightarrow> []
                     | Some p \<Rightarrow> if registered then [EmitDisconnection p] else []);
               T2 = (if outbound w \<and> uplink T1 = Some c
                     then T1\<lparr>uplink := None, uplinkPeerId := None\<rparr> else T1)
           in ((w1, T2), ev)))"

text \<open>
  The message handler of \<^verbatim>\<open>_wireWsConn\<close> (lines 511 to 547) for connection \<open>c\<close>, on a
  message with opcode \<open>opc\<close> (1 or 2) and payload \<open>bytes\<close>. An expected PeerId that is the
  empty string is falsy in the source and checks nothing.
\<close>

definition ws_onMessage ::
  "json_parser \<Rightarrow> conn_id \<Rightarrow> wire \<times> ws_transport \<Rightarrow> nat \<Rightarrow> byte list \<Rightarrow>
   (wire \<times> ws_transport) \<times> effect list" where
  "ws_onMessage jsonParse c s opc bytes =
     (case s of (w, T) \<Rightarrow>
        (case remotePeerId w of
           None \<Rightarrow>
             if opc \<noteq> 1 then
               ((w, ws_emitError WsExpectedHelloTextFrame T),
                [EmitError WsExpectedHelloTextFrame, WsClose c])
             else
               (case jsonParse bytes of
                  None \<Rightarrow>
                    ((w, ws_emitError WsInvalidHelloJSON T),
                     [EmitError WsInvalidHelloJSON, WsClose c])
                | Some obj \<Rightarrow>
                    (case helloPeerId obj of
                       None \<Rightarrow>
                         ((w, ws_emitError WsInvalidHelloFields T),
                          [EmitError WsInvalidHelloFields, WsClose c])
                     | Some p \<Rightarrow>
                         if outbound w \<and> expectedPeerId T \<noteq> None \<and>
                            expectedPeerId T \<noteq> Some [] \<and> expectedPeerId T \<noteq> Some p
                         then
                           ((w\<lparr>remotePeerId := Some p\<rparr>, ws_emitError WsPeerIdMismatch T),
                            [EmitError WsPeerIdMismatch, WsClose c])
                         else
                           ((w\<lparr>remotePeerId := Some p\<rparr>,
                             ws_emitConnection p (outbound w)
                               (T\<lparr>peers := AList.update p c (peers T)\<rparr>)),
                            [EmitConnection p (outbound w)])))
         | Some sender \<Rightarrow>
             if opc \<noteq> 2 then ((w, T), []) else ((w, T), [EmitFrame sender bytes])))"


text \<open>
  The fields of a \<^verbatim>\<open>WsConnection\<close>: its options and its accumulation buffer \<^verbatim>\<open>_buf\<close>.
\<close>

record ws_connection =
  maskOutgoing :: bool
  expectMasked :: bool
  connMaxPayloadBytes :: nat
  connBuf :: "byte list"

type_synonym ws_outcome =
  "ws_connection \<times> (wire \<times> ws_transport) \<times> effect list \<times> ws_error option"

definition ws_after :: "effect list \<Rightarrow> ws_outcome \<Rightarrow> ws_outcome" where
  "ws_after ev r = (case r of (k, s, ev', thrown) \<Rightarrow> (k, s, ev @ ev', thrown))"

lemma parseLength_offset:
  "parseLength buffer len7 = Inr (Some (len, off)) \<Longrightarrow> 2 \<le> off"
  by (auto simp add: parseLength_def split: if_splits)

lemma parseBody_rest:
  assumes "parseBody buffer opc masked mx len off = Inr (Some (fr, rest))"
  shows "length rest + off \<le> length buffer"
proof -
  let ?offset = "if masked then off + 4 else off"
  from assms have a: "?offset + len \<le> length buffer" and b: "rest = drop (?offset + len) buffer"
    by (auto simp add: parseBody_def Let_def split: if_splits)
  show ?thesis unfolding b using a by (simp split: if_splits)
qed

lemma tryParseFrame_rest_shorter:
  assumes "tryParseFrame buffer em mx = Inr (Some (fr, rest))"
  shows "length rest < length buffer"
proof -
  from assms obtain len7 opc masked len off where
    p: "parseLength buffer len7 = Inr (Some (len, off))" and
    b: "parseBody buffer opc masked mx len off = Inr (Some (fr, rest))"
    by (auto simp add: tryParseFrame_def Let_def split: if_splits sum.splits option.splits)
  from parseLength_offset [OF p] parseBody_rest [OF b] show ?thesis by simp
qed

text \<open>
  The loop of \<^verbatim>\<open>WsConnection._onData\<close> (lines 170 to 198) on connection \<open>c\<close>, with the
  message handler that \<^verbatim>\<open>_wireWsConn\<close> installed. The last component of the result is
  the error that the loop throws, if it throws: \<^verbatim>\<open>_onData\<close> has no handler for it, and it
  runs as the socket's \<^verbatim>\<open>data\<close> listener, so the error leaves the listener. The effects
  listed are those that happened before.
\<close>

function ws_drain ::
  "json_parser \<Rightarrow> conn_id \<Rightarrow> ws_connection \<Rightarrow> wire \<times> ws_transport \<Rightarrow> ws_outcome" where
  "ws_drain jsonParse c k s =
     (case tryParseFrame (connBuf k) (expectMasked k) (connMaxPayloadBytes k) of
        Inl e \<Rightarrow> (k, s, [], Some e)
      | Inr None \<Rightarrow> (k, s, [], None)
      | Inr (Some (fr, rest)) \<Rightarrow>
          if opcode fr = 8 then (k\<lparr>connBuf := rest\<rparr>, s, [WsClose c], None)
          else if opcode fr = 9 then
            ws_after [WsSend c 10 (payload fr)] (ws_drain jsonParse c (k\<lparr>connBuf := rest\<rparr>) s)
          else if opcode fr = 10 then ws_drain jsonParse c (k\<lparr>connBuf := rest\<rparr>) s
          else if opcode fr = 1 \<or> opcode fr = 2 then
            ws_after (snd (ws_onMessage jsonParse c s (opcode fr) (payload fr)))
              (ws_drain jsonParse c (k\<lparr>connBuf := rest\<rparr>)
                 (fst (ws_onMessage jsonParse c s (opcode fr) (payload fr))))
          else (k\<lparr>connBuf := rest\<rparr>, s, [], Some UnsupportedWsOpcode))"
  by pat_completeness auto
termination
  by (relation "measure (\<lambda>(jsonParse, c, k, s). length (connBuf k))")
     (auto dest: tryParseFrame_rest_shorter)

declare ws_drain.simps [simp del]

text \<open>\<^verbatim>\<open>WsConnection._onData(chunk)\<close>: append the chunk, then run the loop.\<close>

definition ws_onData ::
  "json_parser \<Rightarrow> conn_id \<Rightarrow> ws_connection \<Rightarrow> wire \<times> ws_transport \<Rightarrow> byte list \<Rightarrow>
   ws_outcome" where
  "ws_onData jsonParse c k s chunk = ws_drain jsonParse c (k\<lparr>connBuf := connBuf k @ chunk\<rparr>) s"

text \<open>
  The server's upgrade handler from the point where the connection object is made
  (lines 361 to 368), and \<^verbatim>\<open>_startClient\<close> from that point (lines 460 to 487), each with the
  \<^verbatim>\<open>_wireWsConn\<close> call that installs the handlers and sends the hello. The HTTP handshake
  before them is not modelled.
\<close>

definition ws_accept ::
  "conn_id \<Rightarrow> ws_transport \<Rightarrow> ws_connection \<times> (wire \<times> ws_transport) \<times> effect list" where
  "ws_accept c T =
     (\<lparr>maskOutgoing = False, expectMasked = True,
       connMaxPayloadBytes = maxPayloadBytes T, connBuf = []\<rparr>,
      (newWire False, T), [SendHello c])"


text \<open>
  \<^verbatim>\<open>WebSocketTransport.stop()\<close> (lines 285 to 312) has two parts. \<open>ws_stop\<close> is the part
  that runs at once, up to the \<^verbatim>\<open>await\<close> of line 310: the state it leaves and the calls it
  makes. When a server was set (\<open>ws_stop_awaits\<close>), \<^verbatim>\<open>stop()\<close> then waits for the callback
  of \<^verbatim>\<open>server.close\<close>, which the platform calls only when every socket that the server
  accepted has closed; until then other handlers run, and \<^verbatim>\<open>stop()\<close> has not returned.
  Without a server, \<^verbatim>\<open>stop()\<close> returns when \<open>ws_stop\<close> is over. A client-mode transport never
  sets a server.
\<close>

definition ws_stop :: "ws_transport \<Rightarrow> ws_transport \<times> effect list" where
  "ws_stop T =
     (T\<lparr>started := False, peers := [], uplinkPeerId := None, uplink := None,
        httpServer := False\<rparr>,
      map (\<lambda>pc. WsClose (snd pc)) (peers T) @
      (case uplink T of None \<Rightarrow> [] | Some u \<Rightarrow> [WsClose u]) @
      (if httpServer T then [ServerClose] else []))"

definition ws_stop_awaits :: "ws_transport \<Rightarrow> bool" where
  "ws_stop_awaits T = httpServer T"



datatype send_error =
    NotStarted
  | UnknownPeerId
  | NotConnected
  | ClientOnlyRelay
  | UnknownTarget
  | InvalidTarget

text \<open>
  \<^verbatim>\<open>WebSocketTransport.send(to, bytes)\<close> (lines 314 to 332), for \<open>bytes\<close> that are a
  \<^verbatim>\<open>Uint8Array\<close>; \<open>target\<close> is \<^verbatim>\<open>String(to)\<close>. \<open>Inl\<close> is the error thrown.
\<close>

definition ws_send :: "string \<Rightarrow> byte list \<Rightarrow> ws_transport \<Rightarrow> send_error + effect list" where
  "ws_send target bytes T =
     (if \<not> started T then Inl NotStarted
      else if mode T = Some Server then
        (case map_of (peers T) target of
           None \<Rightarrow> Inl UnknownPeerId
         | Some conn \<Rightarrow> Inr [WsSend conn 2 bytes])
      else
        (case uplink T of
           None \<Rightarrow> Inl NotConnected
         | Some u \<Rightarrow>
             if Some target \<noteq> url T \<and> Some target \<noteq> uplinkPeerId T then Inl ClientOnlyRelay
             else Inr [WsSend u 2 bytes]))"


section \<open>TcpTransport\<close>

text \<open>
  Besides the fields of the class (\<^verbatim>\<open>_dialing\<close>, \<^verbatim>\<open>_maxFrameBytes\<close>, whether \<^verbatim>\<open>_server\<close> is
  set, whether a listen address was configured), the state keeps two things that live
  outside the object in the source: the promises that \<^verbatim>\<open>_dial\<close> has created and that
  have not settled yet, each with its outbound socket and its key (\<open>pendingDials\<close>), and
  the number of outbound sockets created so far (\<open>socketsCreated\<close>), which also names the
  next one. A ledger entry maps a key to the attempt's socket.
\<close>

record tcp_transport = transport +
  dialing :: "(string \<times> conn_id) list"
  maxFrameBytes :: nat
  listenConfigured :: bool
  listening :: bool
  pendingDials :: "(conn_id \<times> string) list"
  socketsCreated :: nat

text \<open>
  \<^verbatim>\<open>encodeFrame\<close> (lines 38 to 44): a buffer of 4 bytes plus the length cut to 32 bits,
  holding the cut length as prefix and then as much of the payload as fits (\<^verbatim>\<open>copy\<close> stops
  at the end of the target).
\<close>

definition encodeFrame :: "byte list \<Rightarrow> byte list" where
  "encodeFrame payloadBytes =
     writeUInt32BE (length payloadBytes mod 2 ^ 32) @
     take (length payloadBytes mod 2 ^ 32) payloadBytes"

text \<open>The closure \<^verbatim>\<open>cleanup\<close> of \<^verbatim>\<open>_handleSocket\<close> (lines 170 to 177) for socket \<open>c\<close>.\<close>

definition tcp_cleanup ::
  "conn_id \<Rightarrow> wire \<times> tcp_transport \<Rightarrow> (wire \<times> tcp_transport) \<times> effect list" where
  "tcp_cleanup c s =
     (case s of (w, T) \<Rightarrow>
        if closed w then ((w, T), [])
        else
          (case remotePeerId w of
             None \<Rightarrow> ((w\<lparr>closed := True\<rparr>, T), [])
           | Some p \<Rightarrow>
               if map_of (peers T) p = Some c
               then ((w\<lparr>closed := True\<rparr>, T\<lparr>peers := AList.delete p (peers T)\<rparr>),
                     [EmitDisconnection p])
               else ((w\<lparr>closed := True\<rparr>, T), [])))"

type_synonym tcp_outcome = "byte list \<times> (wire \<times> tcp_transport) \<times> effect list"

definition tcp_after :: "effect list \<Rightarrow> tcp_outcome \<Rightarrow> tcp_outcome" where
  "tcp_after ev r = (case r of (buf, s, ev') \<Rightarrow> (buf, s, ev @ ev'))"

text \<open>
  The loop of the \<^verbatim>\<open>data\<close> listener of \<^verbatim>\<open>_handleSocket\<close> (lines 185 to 218) for socket
  \<open>c\<close>, on the closure's buffer \<open>buf\<close>. The listeners that a pending \<^verbatim>\<open>_dial\<close> has on the
  \<^verbatim>\<open>connection\<close> event act on its promise only; the settling of that promise is
  \<open>tcp_settle\<close> below.
\<close>

function tcp_drain ::
  "json_parser \<Rightarrow> conn_id \<Rightarrow> byte list \<Rightarrow> wire \<times> tcp_transport \<Rightarrow> tcp_outcome" where
  "tcp_drain jsonParse c buf s =
     (if length buf < 4 then (buf, s, [])
      else if readUInt32BE buf 0 > maxFrameBytes (snd s) then
        (buf, s, [EmitError TcpFrameTooLarge, SocketDestroy c])
      else if length buf < 4 + readUInt32BE buf 0 then (buf, s, [])
      else
        (case remotePeerId (fst s) of
           None \<Rightarrow>
             (case jsonParse (take (readUInt32BE buf 0) (drop 4 buf)) of
                None \<Rightarrow>
                  (drop (4 + readUInt32BE buf 0) buf, s,
                   [EmitError TcpInvalidHello, SocketDestroy c])
              | Some obj \<Rightarrow>
                  (case helloPeerId obj of
                     None \<Rightarrow>
                       (drop (4 + readUInt32BE buf 0) buf, s,
                        [EmitError TcpInvalidHelloFields, SocketDestroy c])
                   | Some p \<Rightarrow>
                       tcp_after [EmitConnection p (outbound (fst s))]
                         (tcp_drain jsonParse c (drop (4 + readUInt32BE buf 0) buf)
                            ((fst s)\<lparr>remotePeerId := Some p\<rparr>,
                             (snd s)\<lparr>peers := AList.update p c (peers (snd s))\<rparr>))))
         | Some sender \<Rightarrow>
             tcp_after [EmitFrame sender (take (readUInt32BE buf 0) (drop 4 buf))]
               (tcp_drain jsonParse c (drop (4 + readUInt32BE buf 0) buf) s)))"
  by pat_completeness auto
termination
  by (relation "measure (\<lambda>(jsonParse, c, buf, s). length buf)") auto

declare tcp_drain.simps [simp del]

text \<open>The \<^verbatim>\<open>data\<close> listener itself: append the chunk, then run the loop.\<close>

definition tcp_onData ::
  "json_parser \<Rightarrow> conn_id \<Rightarrow> byte list \<Rightarrow> wire \<times> tcp_transport \<Rightarrow> byte list \<Rightarrow> tcp_outcome" where
  "tcp_onData jsonParse c buf s chunk = tcp_drain jsonParse c (buf @ chunk) s"

text \<open>
  \<^verbatim>\<open>_handleSocket(socket, { outbound })\<close> up to the point where the listeners are
  installed: the hello is written, and the closure starts with an empty buffer.
\<close>

definition tcp_handleSocket :: "conn_id \<Rightarrow> bool \<Rightarrow> byte list \<times> wire \<times> effect list" where
  "tcp_handleSocket c ob = ([], newWire ob, [SendHello c])"

text \<open>
  \<^verbatim>\<open>TcpTransport.start()\<close> (lines 89 to 106) where the listen succeeds, and
  \<^verbatim>\<open>TcpTransport.stop()\<close> (lines 108 to 127). As on the WebSocket backend, \<open>tcp_stop\<close> is
  the part of \<^verbatim>\<open>stop()\<close> that runs at once, up to the \<^verbatim>\<open>await\<close> of line 125. When the
  transport was started and a server was set (\<open>tcp_stop_awaits\<close>), \<^verbatim>\<open>stop()\<close> then waits for
  the callback of \<^verbatim>\<open>server.close\<close>, which comes only when every socket that the server
  accepted has closed; otherwise \<^verbatim>\<open>stop()\<close> returns when \<open>tcp_stop\<close> is over. Sockets that
  the transport dialled are not the server's.
\<close>

definition tcp_start :: "tcp_transport \<Rightarrow> tcp_transport" where
  "tcp_start T =
     (if started T then T
      else T\<lparr>started := True, listening := (if listenConfigured T then True else listening T)\<rparr>)"

definition tcp_stop :: "tcp_transport \<Rightarrow> tcp_transport \<times> effect list" where
  "tcp_stop T =
     (if \<not> started T then (T, [])
      else
        (T\<lparr>started := False, peers := [], dialing := [], listening := False\<rparr>,
         map (\<lambda>pc. SocketDestroy (snd pc)) (peers T) @
         (if listening T then [ServerClose] else [])))"

definition tcp_stop_awaits :: "tcp_transport \<Rightarrow> bool" where
  "tcp_stop_awaits T = (started T \<and> listening T)"

text \<open>
  \<^verbatim>\<open>_dial(host, port, ...)\<close> (lines 222 to 277) up to its \<^verbatim>\<open>await\<close>, for the key that it
  builds from host and port (line 223). It returns the attempt that the caller waits
  for: the one in the ledger, or a new one with a new outbound socket.
\<close>

definition tcp_dial :: "string \<Rightarrow> tcp_transport \<Rightarrow> tcp_transport \<times> conn_id \<times> effect list" where
  "tcp_dial key T =
     (case map_of (dialing T) key of
        Some attempt \<Rightarrow> (T, attempt, [])
      | None \<Rightarrow>
          (T\<lparr>dialing := AList.update key (socketsCreated T) (dialing T),
             pendingDials := pendingDials T @ [(socketsCreated T, key)],
             socketsCreated := socketsCreated T + 1\<rparr>,
           socketsCreated T,
           [NetConnect (socketsCreated T) key]))"

text \<open>
  The promise of the attempt with socket \<open>a\<close> settles, resolved or rejected alike: its
  \<^verbatim>\<open>finally\<close> callback (lines 271 to 273) deletes the ledger entry of the attempt's key.
\<close>

definition tcp_settle :: "conn_id \<Rightarrow> tcp_transport \<Rightarrow> tcp_transport" where
  "tcp_settle a T =
     (case map_of (pendingDials T) a of
        None \<Rightarrow> T
      | Some key \<Rightarrow>
          T\<lparr>dialing := AList.delete key (dialing T),
            pendingDials := AList.delete a (pendingDials T)\<rparr>)"

text \<open>
  \<^verbatim>\<open>TcpTransport.send(to, bytes)\<close> (lines 129 to 147) up to its \<^verbatim>\<open>await\<close>, for \<open>bytes\<close>
  that are a \<^verbatim>\<open>Uint8Array\<close>. \<^verbatim>\<open>parseTcpTarget\<close> reads the target with the platform's
  \<^verbatim>\<open>URL\<close> class and is the parameter \<open>parseTarget\<close>: \<open>Inl\<close> where it throws, \<open>Inr None\<close>
  for \<^verbatim>\<open>null\<close>, and otherwise the key of the host and port that it found. The last
  component of the result is the attempt that the call waits for before it writes.
\<close>

definition tcp_send ::
  "(string \<Rightarrow> send_error + string option) \<Rightarrow> string \<Rightarrow> byte list \<Rightarrow> tcp_transport \<Rightarrow>
   send_error + (tcp_transport \<times> effect list \<times> conn_id option)" where
  "tcp_send parseTarget to bytes T =
     (if \<not> started T then Inl NotStarted
      else
        (case map_of (peers T) to of
           Some existing \<Rightarrow> Inr (T, [TcpWrite existing (encodeFrame bytes)], None)
         | None \<Rightarrow>
             (case parseTarget to of
                Inl e \<Rightarrow> Inl e
              | Inr None \<Rightarrow> Inl UnknownTarget
              | Inr (Some key) \<Rightarrow>
                  (case tcp_dial key T of
                     (T', attempt, ev) \<Rightarrow> Inr (T', ev, Some attempt)))))"


section \<open>Example states and inputs\<close>

text \<open>
  The concrete states and inputs at which the theorems below are instantiated. The text
  \<^verbatim>\<open>{"t":"hello","peerId":"B"}\<close> is given as its 26 bytes, \<open>helloB\<close> is the value that
  \<^verbatim>\<open>JSON.parse\<close> returns for it, and \<open>parseHelloB\<close> stands for the parser in the examples:
  it parses this one text and fails on every other input. The examples apply it, besides
  the hello text, only to the one-byte text \<^verbatim>\<open>x\<close>, which is not JSON.
\<close>

definition helloB_text :: "byte list" where
  "helloB_text =
     [0x7B, 0x22, 0x74, 0x22, 0x3A, 0x22, 0x68, 0x65, 0x6C, 0x6C, 0x6F, 0x22, 0x2C,
      0x22, 0x70, 0x65, 0x65, 0x72, 0x49, 0x64, 0x22, 0x3A, 0x22, 0x42, 0x22, 0x7D]"

definition helloB :: json where
  "helloB = JObj [(''t'', JStr ''hello''), (''peerId'', JStr ''B'')]"

definition parseHelloB :: json_parser where
  "parseHelloB bytes = (if bytes = helloB_text then Some helloB else None)"

definition wsServer :: ws_transport where
  "wsServer =
     \<lparr>started = True, peers = [], mode = Some Server, url = None, expectedPeerId = None,
      maxPayloadBytes = 1048576, uplink = None, uplinkPeerId = None, httpServer = True,
      waitHello = NoWait\<rparr>"

definition wsClient :: ws_transport where
  "wsClient =
     \<lparr>started = False, peers = [], mode = Some Client, url = Some ''ws://relay:8080/'',
      expectedPeerId = None, maxPayloadBytes = 1048576, uplink = None, uplinkPeerId = None,
      httpServer = False, waitHello = NoWait\<rparr>"

definition tcpNode :: tcp_transport where
  "tcpNode =
     \<lparr>started = True, peers = [], dialing = [], maxFrameBytes = 1048576,
      listenConfigured = True, listening = True, pendingDials = [], socketsCreated = 0\<rparr>"

text \<open>A started \<open>TcpTransport\<close> that does not listen: it only dials.\<close>

definition tcpDialer :: tcp_transport where
  "tcpDialer =
     \<lparr>started = True, peers = [], dialing = [], maxFrameBytes = 1048576,
      listenConfigured = False, listening = False, pendingDials = [], socketsCreated = 0\<rparr>"

text \<open>
  \<open>parseTargetH1\<close> stands for \<^verbatim>\<open>parseTcpTarget\<close> in the examples. For the target
  \<^verbatim>\<open>tcp://h:1\<close> the source finds host \<^verbatim>\<open>h\<close> and port 1 and builds the key \<^verbatim>\<open>tcp://h:1\<close>; the
  examples use no other target.
\<close>

definition parseTargetH1 :: "string \<Rightarrow> send_error + string option" where
  "parseTargetH1 to = (if to = ''tcp://h:1'' then Inr (Some ''tcp://h:1'') else Inr None)"

definition identifiedB :: wire where
  "identifiedB = \<lparr>remotePeerId = Some ''B'', closed = False, outbound = False\<rparr>"

section \<open>The peer registry\<close>

lemma ws_cleanup_idem:
  "ws_cleanup c (fst (ws_cleanup c s)) = (fst (ws_cleanup c s), [])"
  by (cases s) (simp add: ws_cleanup_def Let_def)

lemma tcp_cleanup_idem:
  "tcp_cleanup c (fst (tcp_cleanup c s)) = (fst (tcp_cleanup c s), [])"
  by (cases s) (simp add: tcp_cleanup_def split: option.splits)

lemma ws_cleanup_guard:
  assumes "remotePeerId w = None \<or> (\<exists>p. remotePeerId w = Some p \<and> map_of (peers T) p \<noteq> Some c)"
  shows "peers (snd (fst (ws_cleanup c (w, T)))) = peers T \<and> snd (ws_cleanup c (w, T)) = []"
  using assms by (auto simp add: ws_cleanup_def Let_def)

lemma tcp_cleanup_guard:
  assumes "remotePeerId w = None \<or> (\<exists>p. remotePeerId w = Some p \<and> map_of (peers T) p \<noteq> Some c)"
  shows "peers (snd (fst (tcp_cleanup c (w, T)))) = peers T \<and> snd (tcp_cleanup c (w, T)) = []"
  using assms by (auto simp add: tcp_cleanup_def)

lemma ws_cleanup_distinct:
  "distinct (map fst (peers (snd s))) \<Longrightarrow> distinct (map fst (peers (snd (fst (ws_cleanup c s)))))"
  by (cases s) (auto simp add: ws_cleanup_def Let_def distinct_delete split: option.splits)

lemma tcp_cleanup_distinct:
  "distinct (map fst (peers (snd s))) \<Longrightarrow> distinct (map fst (peers (snd (fst (tcp_cleanup c s)))))"
  by (cases s) (auto simp add: tcp_cleanup_def distinct_delete split: option.splits)

lemma ws_onMessage_distinct:
  "distinct (map fst (peers (snd s))) \<Longrightarrow>
   distinct (map fst (peers (snd (fst (ws_onMessage jp c s opc bytes)))))"
  by (cases s) (auto simp add: ws_onMessage_def ws_emitError_def ws_emitConnection_def distinct_update split: option.splits)

lemma ws_onMessage_hello:
  assumes "remotePeerId w = None" "jp bytes = Some obj" "helloPeerId obj = Some p"
    "\<not> outbound w \<or> expectedPeerId T = None \<or> expectedPeerId T = Some [] \<or> expectedPeerId T = Some p"
  shows "ws_onMessage jp c (w, T) 1 bytes =
     ((w\<lparr>remotePeerId := Some p\<rparr>,
       ws_emitConnection p (outbound w) (T\<lparr>peers := AList.update p c (peers T)\<rparr>)),
      [EmitConnection p (outbound w)])"
  using assms by (auto simp add: ws_onMessage_def)

lemma peers_ws_emitConnection [simp]: "peers (ws_emitConnection p ob T) = peers T"
  by (simp add: ws_emitConnection_def)

lemma tcp_drain_hello:
  assumes "length buf = 4 + readUInt32BE buf 0" "readUInt32BE buf 0 \<le> maxFrameBytes T"
    "remotePeerId w = None" "jp (drop 4 buf) = Some obj" "helloPeerId obj = Some p"
  shows "tcp_drain jp c buf (w, T) =
     ([], (w\<lparr>remotePeerId := Some p\<rparr>, T\<lparr>peers := AList.update p c (peers T)\<rparr>),
      [EmitConnection p (outbound w)])"
proof -
  have t: "take (readUInt32BE buf 0) (drop 4 buf) = drop 4 buf" using assms(1) by simp
  have d: "drop (4 + readUInt32BE buf 0) buf = []" using assms(1) by simp
  have e: "tcp_drain jp c [] (w\<lparr>remotePeerId := Some p\<rparr>, T\<lparr>peers := AList.update p c (peers T)\<rparr>)
     = ([], (w\<lparr>remotePeerId := Some p\<rparr>, T\<lparr>peers := AList.update p c (peers T)\<rparr>), [])"
    by (subst tcp_drain.simps) simp
  show ?thesis
    apply (subst tcp_drain.simps)
    using assms by (simp add: t d e tcp_after_def)
qed

lemma tcp_after_state [simp]: "fst (snd (tcp_after ev r)) = fst (snd r)"
  by (cases r) (simp add: tcp_after_def)

lemma tcp_drain_distinct:
  "distinct (map fst (peers (snd s))) \<Longrightarrow>
   distinct (map fst (peers (snd (fst (snd (tcp_drain jp c buf s))))))"
proof (induction jp c buf s rule: tcp_drain.induct)
  case (1 jp c buf s)
  note d = \<open>distinct (map fst (peers (snd s)))\<close>
  show ?case
  proof (cases "length buf < 4 \<or> readUInt32BE buf 0 > maxFrameBytes (snd s) \<or>
                length buf < 4 + readUInt32BE buf 0")
    case True
    then show ?thesis using d by (subst tcp_drain.simps) auto
  next
    case False
    then have f: "\<not> length buf < 4" "\<not> readUInt32BE buf 0 > maxFrameBytes (snd s)"
      "\<not> length buf < 4 + readUInt32BE buf 0" by auto
    show ?thesis
    proof (cases "remotePeerId (fst s)")
      case (Some r)
      from "1.IH"(2) [OF f Some d] show ?thesis
        by (subst tcp_drain.simps) (simp add: f Some)
    next
      case None
      show ?thesis
      proof (cases "jp (take (readUInt32BE buf 0) (drop 4 buf))")
        case n: None
        then show ?thesis using d by (subst tcp_drain.simps) (simp add: f None)
      next
        case (Some obj)
        show ?thesis
        proof (cases "helloPeerId obj")
          case h: None
          then show ?thesis using d by (subst tcp_drain.simps) (simp add: f None Some)
        next
          case h: (Some p)
          have "distinct (map fst (peers (snd ((fst s)\<lparr>remotePeerId := Some p\<rparr>,
                  (snd s)\<lparr>peers := AList.update p c (peers (snd s))\<rparr>))))"
            using d by (simp add: distinct_update)
          from "1.IH"(1) [OF f None Some h this] show ?thesis
            by (subst tcp_drain.simps) (simp add: f None Some h)
        qed
      qed
    qed
  qed
qed


text \<open>
  Claim C8, on both backends. The registry is a map, so a PeerId has at most one
  connection, and its keys stay distinct. When connection \<open>c\<close> sends a valid hello with a
  PeerId \<open>p\<close> (registered before or not), the only effect is the \<open>connection\<close> event:
  nothing closes the connection that \<open>p\<close> named before, and \<open>p\<close> now names \<open>c\<close>. The
  cleanup of another connection \<open>c0\<close> that was identified as \<open>p\<close> then emits nothing and
  leaves \<open>p\<close> with \<open>c\<close>. Cleanup run a second time changes nothing and emits nothing.
\<close>

theorem peer_registry_replace_and_cleanup:
  fixes T :: ws_transport and U :: tcp_transport
  assumes "distinct (map fst (peers T))" "distinct (map fst (peers U))"
    and "remotePeerId w = None" "helloPeerId obj = Some p"
    and "jsonParse bytes = Some obj"
    and "\<not> outbound w \<or> expectedPeerId T = None \<or> expectedPeerId T = Some [] \<or>
         expectedPeerId T = Some p"
    and "length buf = 4 + readUInt32BE buf 0" "readUInt32BE buf 0 \<le> maxFrameBytes U"
    and "jsonParse (drop 4 buf) = Some obj"
    and "remotePeerId w0 = Some p" "c0 \<noteq> c"
  shows "snd (ws_onMessage jsonParse c (w, T) 1 bytes) = [EmitConnection p (outbound w)] \<and>
         map_of (peers (snd (fst (ws_onMessage jsonParse c (w, T) 1 bytes)))) p = Some c \<and>
         distinct (map fst (peers (snd (fst (ws_onMessage jsonParse c (w, T) 1 bytes))))) \<and>
         snd (ws_cleanup c0 (w0, snd (fst (ws_onMessage jsonParse c (w, T) 1 bytes)))) = [] \<and>
         map_of (peers (snd (fst (ws_cleanup c0
            (w0, snd (fst (ws_onMessage jsonParse c (w, T) 1 bytes))))))) p = Some c \<and>
         ws_cleanup c0 (fst (ws_cleanup c0 (w0, T))) = (fst (ws_cleanup c0 (w0, T)), []) \<and>
         distinct (map fst (peers (snd (fst (ws_cleanup c0 (w0, T)))))) \<and>
         snd (snd (tcp_drain jsonParse c buf (w, U))) = [EmitConnection p (outbound w)] \<and>
         map_of (peers (snd (fst (snd (tcp_drain jsonParse c buf (w, U)))))) p = Some c \<and>
         distinct (map fst (peers (snd (fst (snd (tcp_drain jsonParse c buf (w, U))))))) \<and>
         snd (tcp_cleanup c0 (w0, snd (fst (snd (tcp_drain jsonParse c buf (w, U)))))) = [] \<and>
         map_of (peers (snd (fst (tcp_cleanup c0
            (w0, snd (fst (snd (tcp_drain jsonParse c buf (w, U)))))))))  p = Some c \<and>
         tcp_cleanup c0 (fst (tcp_cleanup c0 (w0, U))) = (fst (tcp_cleanup c0 (w0, U)), []) \<and>
         distinct (map fst (peers (snd (fst (tcp_cleanup c0 (w0, U))))))"
proof -
  have m: "ws_onMessage jsonParse c (w, T) 1 bytes =
     ((w\<lparr>remotePeerId := Some p\<rparr>,
       ws_emitConnection p (outbound w) (T\<lparr>peers := AList.update p c (peers T)\<rparr>)),
      [EmitConnection p (outbound w)])"
    using assms by (intro ws_onMessage_hello) auto
  have t: "tcp_drain jsonParse c buf (w, U) =
     ([], (w\<lparr>remotePeerId := Some p\<rparr>, U\<lparr>peers := AList.update p c (peers U)\<rparr>),
      [EmitConnection p (outbound w)])"
    using assms by (intro tcp_drain_hello) auto
  have g1: "map_of (peers (ws_emitConnection p (outbound w) (T\<lparr>peers := AList.update p c (peers T)\<rparr>))) p
      \<noteq> Some c0"
    using assms by (simp add: update_conv')
  have g2: "map_of (peers (U\<lparr>peers := AList.update p c (peers U)\<rparr>)) p \<noteq> Some c0"
    using assms by (simp add: update_conv')
  have w1: "snd (ws_onMessage jsonParse c (w, T) 1 bytes) = [EmitConnection p (outbound w)]"
    unfolding m by simp
  have w2: "map_of (peers (snd (fst (ws_onMessage jsonParse c (w, T) 1 bytes)))) p = Some c"
    unfolding m by (simp add: update_conv')
  have w3: "distinct (map fst (peers (snd (fst (ws_onMessage jsonParse c (w, T) 1 bytes)))))"
    using ws_onMessage_distinct [of "(w, T)" jsonParse c 1 bytes] assms(1) by simp
  have w45: "snd (ws_cleanup c0 (w0, snd (fst (ws_onMessage jsonParse c (w, T) 1 bytes)))) = [] \<and>
         map_of (peers (snd (fst (ws_cleanup c0
            (w0, snd (fst (ws_onMessage jsonParse c (w, T) 1 bytes))))))) p = Some c"
    using ws_cleanup_guard [of w0 _ c0] g1 assms(10) w2 unfolding m by simp
  have w6: "ws_cleanup c0 (fst (ws_cleanup c0 (w0, T))) = (fst (ws_cleanup c0 (w0, T)), [])"
    by (rule ws_cleanup_idem)
  have w7: "distinct (map fst (peers (snd (fst (ws_cleanup c0 (w0, T))))))"
    using ws_cleanup_distinct [of "(w0, T)"] assms(1) by simp
  have t1: "snd (snd (tcp_drain jsonParse c buf (w, U))) = [EmitConnection p (outbound w)]"
    by (simp add: t)
  have t2: "map_of (peers (snd (fst (snd (tcp_drain jsonParse c buf (w, U)))))) p = Some c"
    by (simp add: t update_conv')
  have t3: "distinct (map fst (peers (snd (fst (snd (tcp_drain jsonParse c buf (w, U)))))))"
    using tcp_drain_distinct [of "(w, U)"] assms(2) by simp
  have t45: "snd (tcp_cleanup c0 (w0, snd (fst (snd (tcp_drain jsonParse c buf (w, U)))))) = [] \<and>
         map_of (peers (snd (fst (tcp_cleanup c0
            (w0, snd (fst (snd (tcp_drain jsonParse c buf (w, U)))))))))  p = Some c"
    using tcp_cleanup_guard [of w0 _ c0] g2 assms(10) t2 by (simp add: t)
  have t6: "tcp_cleanup c0 (fst (tcp_cleanup c0 (w0, U))) = (fst (tcp_cleanup c0 (w0, U)), [])"
    by (rule tcp_cleanup_idem)
  have t7: "distinct (map fst (peers (snd (fst (tcp_cleanup c0 (w0, U))))))"
    using tcp_cleanup_distinct [of "(w0, U)"] assms(2) by simp
  show ?thesis
    using w1 w2 w3 w45 w6 w7 t1 t2 t3 t45 t6 t7 by blast
qed


theorem peer_registry_replace_and_cleanup_witness:
  "snd (ws_onMessage parseHelloB 2 (newWire False, wsServer\<lparr>peers := [(''B'', 1)]\<rparr>) 1
        helloB_text) = [EmitConnection ''B'' False] \<and>
   map_of (peers (snd (fst (ws_onMessage parseHelloB 2
      (newWire False, wsServer\<lparr>peers := [(''B'', 1)]\<rparr>) 1 helloB_text)))) ''B'' = Some 2 \<and>
   snd (snd (tcp_drain parseHelloB 2 (encodeFrame helloB_text)
      (newWire False, tcpNode\<lparr>peers := [(''B'', 1)]\<rparr>))) = [EmitConnection ''B'' False] \<and>
   map_of (peers (snd (fst (snd (tcp_drain parseHelloB 2 (encodeFrame helloB_text)
      (newWire False, tcpNode\<lparr>peers := [(''B'', 1)]\<rparr>)))))) ''B'' = Some 2 \<and>
   map_of (peers (snd (fst (tcp_cleanup 1 (identifiedB,
      snd (fst (snd (tcp_drain parseHelloB 2 (encodeFrame helloB_text)
        (newWire False, tcpNode\<lparr>peers := [(''B'', 1)]\<rparr>))))))))) ''B'' = Some 2"
proof -
  have b: "readUInt32BE (encodeFrame helloB_text) 0 = 26"
    by (simp add: encodeFrame_def helloB_text_def writeUInt32BE_def readUInt32BE_def)
  have l: "length (encodeFrame helloB_text) = 30"
    by (simp add: encodeFrame_def helloB_text_def writeUInt32BE_def)
  have d: "drop 4 (encodeFrame helloB_text) = helloB_text"
    by (simp add: encodeFrame_def helloB_text_def writeUInt32BE_def)
  have h: "helloPeerId helloB = Some ''B''"
    by (simp add: helloPeerId_def helloB_def)
  show ?thesis
    using peer_registry_replace_and_cleanup
      [where T = "wsServer\<lparr>peers := [(''B'', 1)]\<rparr>" and U = "tcpNode\<lparr>peers := [(''B'', 1)]\<rparr>"
         and w = "newWire False" and obj = helloB and p = "''B''" and jsonParse = parseHelloB
         and bytes = helloB_text and buf = "encodeFrame helloB_text" and ?w0.0 = identifiedB
         and ?c0.0 = 1 and c = 2]
    by (simp add: b l d h newWire_def wsServer_def tcpNode_def identifiedB_def parseHelloB_def)
qed

section \<open>Sending from a client-mode WebSocketTransport\<close>

text \<open>
  Claim C10. On a started client-mode transport with an uplink \<open>u\<close>, \<open>ws_send\<close> writes
  the bytes to the uplink when the target is the configured URL or the uplink's PeerId,
  and throws for every other target; the result is the same whatever the peer registry
  holds. The model gives the throw of the \<^verbatim>\<open>async\<close> function as a result value.
\<close>

theorem ws_client_send_targets:
  assumes "mode T = Some Client" "started T" "uplink T = Some u"
  shows "ws_send target bytes T =
           (if url T = Some target \<or> uplinkPeerId T = Some target
            then Inr [WsSend u 2 bytes] else Inl ClientOnlyRelay) \<and>
         ws_send target bytes (T\<lparr>peers := ps\<rparr>) = ws_send target bytes T"
  using assms by (auto simp add: ws_send_def)


theorem ws_client_send_targets_witness:
  "ws_send ''A'' [1, 2] (wsClient\<lparr>started := True, uplink := Some 1, uplinkPeerId := Some ''A'',
      peers := [(''X'', 7)]\<rparr>) = Inr [WsSend 1 2 [1, 2]] \<and>
   ws_send ''ws://relay:8080/'' [1, 2] (wsClient\<lparr>started := True, uplink := Some 1,
      uplinkPeerId := Some ''A'', peers := [(''X'', 7)]\<rparr>) = Inr [WsSend 1 2 [1, 2]] \<and>
   ws_send ''X'' [1, 2] (wsClient\<lparr>started := True, uplink := Some 1, uplinkPeerId := Some ''A'',
      peers := [(''X'', 7)]\<rparr>) = Inl ClientOnlyRelay"
  using
    ws_client_send_targets [where T = "wsClient\<lparr>started := True, uplink := Some 1,
      uplinkPeerId := Some ''A'', peers := [(''X'', 7)]\<rparr>" and u = 1 and target = "''A''"
      and bytes = "[1, 2]"]
    ws_client_send_targets [where T = "wsClient\<lparr>started := True, uplink := Some 1,
      uplinkPeerId := Some ''A'', peers := [(''X'', 7)]\<rparr>" and u = 1
      and target = "''ws://relay:8080/''" and bytes = "[1, 2]"]
    ws_client_send_targets [where T = "wsClient\<lparr>started := True, uplink := Some 1,
      uplinkPeerId := Some ''A'', peers := [(''X'', 7)]\<rparr>" and u = 1 and target = "''X''"
      and bytes = "[1, 2]"]
  by (simp add: wsClient_def)

section \<open>Evaluating the handlers on concrete input\<close>

lemmas ws_eval =
  ws_onData_def ws_accept_def ws_drain.simps tryParseFrame_def parseLength_def
  parseBody_def xorMask_def readUInt16BE_def readUInt32BE_def ws_onMessage_def ws_after_def
  ws_emitError_def ws_emitConnection_def newWire_def identifiedB_def wsServer_def ws_stop_def
  parseHelloB_def helloB_text_def helloB_def helloPeerId_def Let_def

lemmas tcp_eval =
  tcp_onData_def tcp_drain.simps encodeFrame_def writeUInt32BE_def readUInt32BE_def
  tcp_after_def tcp_stop_def tcpNode_def newWire_def identifiedB_def helloB_text_def
  parseHelloB_def helloPeerId_def helloB_def

section \<open>An oversized unit on a TCP connection\<close>

text \<open>
  The \<^verbatim>\<open>data\<close> listener of one socket called once for each of a list of chunks, with
  nothing else happening in between.
\<close>

fun tcp_feed ::
  "json_parser \<Rightarrow> conn_id \<Rightarrow> byte list \<Rightarrow> wire \<times> tcp_transport \<Rightarrow> byte list list \<Rightarrow> tcp_outcome" where
  "tcp_feed jsonParse c buf s [] = (buf, s, [])"
| "tcp_feed jsonParse c buf s (chunk # chunks) =
     (case tcp_onData jsonParse c buf s chunk of
        (buf', s', ev) \<Rightarrow> tcp_after ev (tcp_feed jsonParse c buf' s' chunks))"

fun isFrameEvent :: "effect \<Rightarrow> bool" where
  "isFrameEvent (EmitFrame sender bytes) = True"
| "isFrameEvent e = False"

lemma readUInt32BE_append:
  "4 \<le> length buf \<Longrightarrow> readUInt32BE (buf @ extra) 0 = readUInt32BE buf 0"
proof -
  assume "4 \<le> length buf"
  then have "(buf @ extra) ! 0 = buf ! 0" "(buf @ extra) ! 1 = buf ! 1"
    "(buf @ extra) ! 2 = buf ! 2" "(buf @ extra) ! 3 = buf ! 3"
    by (simp_all only: nth_append_left)
  then show ?thesis by (simp only: readUInt32BE_def One_nat_def add_0 plus_nat.add_0)
qed

lemma tcp_drain_oversize:
  assumes "4 \<le> length buf" "maxFrameBytes T < readUInt32BE buf 0"
  shows "tcp_drain jp c buf (w, T) = (buf, (w, T), [EmitError TcpFrameTooLarge, SocketDestroy c])"
  using assms by (subst tcp_drain.simps) simp

lemma tcp_onData_oversize:
  assumes "4 \<le> length buf" "maxFrameBytes T < readUInt32BE buf 0"
  shows "tcp_onData jp c buf (w, T) chunk =
    (buf @ chunk, (w, T), [EmitError TcpFrameTooLarge, SocketDestroy c])"
  unfolding tcp_onData_def
  using assms by (intro tcp_drain_oversize) (simp_all add: readUInt32BE_append)

lemma tcp_feed_oversize:
  assumes "4 \<le> length buf" "maxFrameBytes T < readUInt32BE buf 0"
  shows "tcp_feed jp c buf (w, T) chunks =
    (buf @ concat chunks, (w, T),
     concat (map (\<lambda>chunk. [EmitError TcpFrameTooLarge, SocketDestroy c]) chunks))"
  using assms
proof (induction chunks arbitrary: buf)
  case Nil
  then show ?case by simp
next
  case (Cons chunk chunks)
  have a: "4 \<le> length (buf @ chunk)" using Cons.prems by simp
  have b: "maxFrameBytes T < readUInt32BE (buf @ chunk) 0"
    using Cons.prems by (simp add: readUInt32BE_append)
  show ?case
    using Cons.IH [OF a b] Cons.prems
    by (simp add: tcp_onData_oversize tcp_after_def)
qed

text \<open>
  Claim C4. When the loop of the \<^verbatim>\<open>data\<close> listener stands at a unit whose prefix
  declares more than the ceiling, it emits \<open>error\<close>, destroys the socket and returns with
  the buffer untouched. The unit therefore stays at the head of the buffer: every later
  call of the listener, with any chunk and in any state of the transport that has the same
  ceiling, ends the same way, and no \<open>frame\<close> event is emitted for the unit or for any
  later bytes, however many chunks arrive.
\<close>

theorem tcp_oversize_unit_is_fatal:
  assumes "4 \<le> length buf" "maxFrameBytes T < readUInt32BE buf 0"
  shows "tcp_drain jsonParse c buf (w, T) =
           (buf, (w, T), [EmitError TcpFrameTooLarge, SocketDestroy c]) \<and>
         (maxFrameBytes T' = maxFrameBytes T \<longrightarrow>
            tcp_onData jsonParse c buf (w', T') chunk =
              (buf @ chunk, (w', T'), [EmitError TcpFrameTooLarge, SocketDestroy c])) \<and>
         filter isFrameEvent (snd (snd (tcp_feed jsonParse c buf (w, T) chunks))) = []"
proof -
  have "filter isFrameEvent
      (concat (map (\<lambda>chunk. [EmitError TcpFrameTooLarge, SocketDestroy c]) chunks)) = []"
    by (induction chunks) simp_all
  then show ?thesis
    using assms by (simp add: tcp_drain_oversize tcp_onData_oversize tcp_feed_oversize)
qed


theorem tcp_oversize_unit_is_fatal_witness:
  "tcp_drain parseHelloB 1 [0, 0, 0, 17] (identifiedB, tcpNode\<lparr>maxFrameBytes := 16\<rparr>) =
     ([0, 0, 0, 17], (identifiedB, tcpNode\<lparr>maxFrameBytes := 16\<rparr>),
      [EmitError TcpFrameTooLarge, SocketDestroy 1]) \<and>
   tcp_onData parseHelloB 1 [0, 0, 0, 17]
      (identifiedB, tcpNode\<lparr>maxFrameBytes := 16, peers := [(''B'', 1)]\<rparr>) [9] =
     ([0, 0, 0, 17, 9], (identifiedB, tcpNode\<lparr>maxFrameBytes := 16, peers := [(''B'', 1)]\<rparr>),
      [EmitError TcpFrameTooLarge, SocketDestroy 1]) \<and>
   filter isFrameEvent (snd (snd (tcp_feed parseHelloB 1 [0, 0, 0, 17]
      (identifiedB, tcpNode\<lparr>maxFrameBytes := 16\<rparr>) [[9], encodeFrame [3]]))) = []"
  using tcp_oversize_unit_is_fatal
    [where buf = "[0, 0, 0, 17]" and T = "tcpNode\<lparr>maxFrameBytes := 16\<rparr>"
       and T' = "tcpNode\<lparr>maxFrameBytes := 16, peers := [(''B'', 1)]\<rparr>"
       and w = identifiedB and w' = identifiedB and c = 1 and jsonParse = parseHelloB
       and chunk = "[9]" and chunks = "[[9], encodeFrame [3]]"]
  by (simp add: readUInt32BE_def tcpNode_def)

text \<open>
  The same on a whole run: a data unit, then the prefix of an oversized one, then more
  chunks. The first unit is delivered; nothing after it is.
\<close>

lemma tcp_feed_oversize_example:
  "tcp_feed parseHelloB 1 [] (identifiedB, tcpNode\<lparr>maxFrameBytes := 16\<rparr>)
     [encodeFrame [1, 2] @ [0, 0, 0, 17], [9], encodeFrame [3]] =
   ([0, 0, 0, 17, 9, 0, 0, 0, 1, 3], (identifiedB, tcpNode\<lparr>maxFrameBytes := 16\<rparr>),
    [EmitFrame ''B'' [1, 2], EmitError TcpFrameTooLarge, SocketDestroy 1,
     EmitError TcpFrameTooLarge, SocketDestroy 1, EmitError TcpFrameTooLarge, SocketDestroy 1])"
  by (simp add: tcp_eval)

section \<open>After stop\<close>

lemma ws_stop_clears:
  "peers (fst (ws_stop T)) = [] \<and> uplink (fst (ws_stop T)) = None \<and>
   uplinkPeerId (fst (ws_stop T)) = None \<and> \<not> started (fst (ws_stop T)) \<and>
   snd (ws_stop T) = map (\<lambda>pc. WsClose (snd pc)) (peers T) @
      (case uplink T of None \<Rightarrow> [] | Some u \<Rightarrow> [WsClose u]) @
      (if httpServer T then [ServerClose] else [])"
  by (simp add: ws_stop_def)

lemma ws_cleanup_after_stop: "snd (ws_cleanup c (w, fst (ws_stop T))) = []"
  by (simp add: ws_cleanup_def ws_stop_def Let_def split: option.splits)

lemma tcp_stop_clears:
  "started U \<Longrightarrow> peers (fst (tcp_stop U)) = [] \<and> dialing (fst (tcp_stop U)) = [] \<and>
   \<not> started (fst (tcp_stop U)) \<and>
   snd (tcp_stop U) = map (\<lambda>pc. SocketDestroy (snd pc)) (peers U) @
      (if listening U then [ServerClose] else [])"
  by (simp add: tcp_stop_def)

lemma tcp_cleanup_after_stop: "started U \<Longrightarrow> snd (tcp_cleanup c (w, fst (tcp_stop U))) = []"
  by (simp add: tcp_cleanup_def tcp_stop_def split: option.splits)

text \<open>
  The four lemmas above are about the part of \<open>stop\<close> that runs at once. The listeners of
  a socket are not part of it: \<open>stop\<close> removes none of them, and none of them looks at
  \<^verbatim>\<open>_started\<close>.

  Claim C7 says that after \<^verbatim>\<open>stop()\<close> has returned the registry is empty and no
  \<open>connection\<close>, \<open>disconnection\<close> or \<open>frame\<close> event is emitted, even if bytes arrive on a
  socket that was open at the time. The code breaks it for a socket that the transport
  dialled and that has not been identified yet. A \<open>TcpTransport\<close> that does not listen
  sends to \<^verbatim>\<open>tcp://h:1\<close>: \<^verbatim>\<open>_dial\<close> creates socket 0, and when it connects
  \<^verbatim>\<open>_handleSocket\<close> installs the listeners. Then \<open>stop\<close> runs: the socket is not in the
  registry, so it is not destroyed, and as there is no server \<^verbatim>\<open>stop()\<close> returns at once,
  with the registry and the ledger empty. Then the peer's hello and a data unit arrive on
  socket 0: the listener registers the peer as \<open>B\<close> and emits \<open>connection\<close> and \<open>frame\<close>.
\<close>

theorem stop_then_hello_on_dialled_socket:
  "tcp_send parseTargetH1 ''tcp://h:1'' [7] tcpDialer =
     Inr (fst (tcp_dial ''tcp://h:1'' tcpDialer), [NetConnect 0 ''tcp://h:1''], Some 0) \<and>
   tcp_handleSocket 0 True = ([], newWire True, [SendHello 0]) \<and>
   \<not> tcp_stop_awaits (fst (tcp_dial ''tcp://h:1'' tcpDialer)) \<and>
   snd (tcp_stop (fst (tcp_dial ''tcp://h:1'' tcpDialer))) = [] \<and>
   peers (fst (tcp_stop (fst (tcp_dial ''tcp://h:1'' tcpDialer)))) = [] \<and>
   dialing (fst (tcp_stop (fst (tcp_dial ''tcp://h:1'' tcpDialer)))) = [] \<and>
   \<not> started (fst (tcp_stop (fst (tcp_dial ''tcp://h:1'' tcpDialer)))) \<and>
   snd (snd (tcp_onData parseHelloB 0 []
      (newWire True, fst (tcp_stop (fst (tcp_dial ''tcp://h:1'' tcpDialer))))
      (encodeFrame helloB_text @ encodeFrame [42]))) =
     [EmitConnection ''B'' True, EmitFrame ''B'' [42]] \<and>
   peers (snd (fst (snd (tcp_onData parseHelloB 0 []
      (newWire True, fst (tcp_stop (fst (tcp_dial ''tcp://h:1'' tcpDialer))))
      (encodeFrame helloB_text @ encodeFrame [42]))))) = [(''B'', 0)]"
  by (simp add: tcp_eval tcp_send_def tcp_dial_def tcp_handleSocket_def tcp_stop_awaits_def
      tcpDialer_def parseTargetH1_def)

section \<open>Frame-decode faults on a WebSocket connection\<close>

text \<open>
  In general: when the parser throws on the buffer with the new chunk appended,
  \<^verbatim>\<open>_onData\<close> ends with that error, has done nothing, and keeps the bytes in the buffer.
\<close>

lemma ws_onData_parse_error:
  assumes "tryParseFrame (connBuf k @ chunk) (expectMasked k) (connMaxPayloadBytes k) = Inl e"
  shows "ws_onData jsonParse c k s chunk = (k\<lparr>connBuf := connBuf k @ chunk\<rparr>, s, [], Some e)"
  unfolding ws_onData_def using assms by (subst ws_drain.simps) simp

text \<open>
  Claim C2 says that a fatal frame-decode fault emits an \<open>error\<close> event and tears down
  the connection. The code throws instead: \<^verbatim>\<open>tryParseFrame\<close> and the opcode dispatch throw
  inside \<^verbatim>\<open>_onData\<close>, which is the socket's \<^verbatim>\<open>data\<close> listener and catches nothing. On a
  server-side connection that is registered as \<open>B\<close>, each of the four faults (a frame with
  fin = 0, an unmasked frame where a masked one is expected, a declared length of 2 MiB
  over the ceiling of 1 MiB, and the unknown opcode 3) leaves \<^verbatim>\<open>_onData\<close> as a thrown
  error, with no effect at all: no \<open>error\<close> event, no close of the connection, and the
  registry entry still in place.
\<close>

theorem ws_decode_fault_throws_out_of_listener:
  "ws_onData parseHelloB 1 (fst (ws_accept 1 wsServer))
      (identifiedB, wsServer\<lparr>peers := [(''B'', 1)]\<rparr>) [0x02, 0x80] =
     ((fst (ws_accept 1 wsServer))\<lparr>connBuf := [0x02, 0x80]\<rparr>,
      (identifiedB, wsServer\<lparr>peers := [(''B'', 1)]\<rparr>), [], Some FragmentedNotSupported) \<and>
   ws_onData parseHelloB 1 (fst (ws_accept 1 wsServer))
      (identifiedB, wsServer\<lparr>peers := [(''B'', 1)]\<rparr>) [0x82, 0x00] =
     ((fst (ws_accept 1 wsServer))\<lparr>connBuf := [0x82, 0x00]\<rparr>,
      (identifiedB, wsServer\<lparr>peers := [(''B'', 1)]\<rparr>), [], Some ExpectedMaskedClientFrame) \<and>
   ws_onData parseHelloB 1 (fst (ws_accept 1 wsServer))
      (identifiedB, wsServer\<lparr>peers := [(''B'', 1)]\<rparr>)
      [0x82, 0xFF, 0, 0, 0, 0, 0, 0x20, 0, 0] =
     ((fst (ws_accept 1 wsServer))\<lparr>connBuf := [0x82, 0xFF, 0, 0, 0, 0, 0, 0x20, 0, 0]\<rparr>,
      (identifiedB, wsServer\<lparr>peers := [(''B'', 1)]\<rparr>), [], Some WsPayloadTooLarge) \<and>
   ws_onData parseHelloB 1 (fst (ws_accept 1 wsServer))
      (identifiedB, wsServer\<lparr>peers := [(''B'', 1)]\<rparr>) [0x83, 0x80, 0, 0, 0, 0] =
     ((fst (ws_accept 1 wsServer))\<lparr>connBuf := []\<rparr>,
      (identifiedB, wsServer\<lparr>peers := [(''B'', 1)]\<rparr>), [], Some UnsupportedWsOpcode)"
  by (simp add: ws_eval)

section \<open>An invalid hello on a WebSocket connection\<close>

text \<open>
  Claim C5 says that a connection whose first payload unit is not a valid hello is closed
  and never registered. On the WebSocket backend the handler emits \<open>error\<close> and calls
  \<^verbatim>\<open>conn.close()\<close>, but the loop of \<^verbatim>\<open>_onData\<close> goes on with the next frame in the buffer,
  and the handler still waits for a hello. A server-side connection receives, in one chunk,
  a masked text frame with the payload \<^verbatim>\<open>x\<close> and a masked text frame with a valid hello of
  peer \<open>B\<close>: after the \<open>error\<close> event and the close, the connection is registered as \<open>B\<close>
  and a \<open>connection\<close> event is emitted.
\<close>

theorem ws_invalid_hello_then_valid_hello_registers:
  "ws_onData parseHelloB 1 (fst (ws_accept 1 wsServer)) (newWire False, wsServer)
      ([0x81, 0x81, 0, 0, 0, 0, 0x78] @ [0x81, 0x9A, 0, 0, 0, 0] @ helloB_text) =
     (fst (ws_accept 1 wsServer),
      (\<lparr>remotePeerId = Some ''B'', closed = False, outbound = False\<rparr>,
       wsServer\<lparr>peers := [(''B'', 1)]\<rparr>),
      [EmitError WsInvalidHelloJSON, WsClose 1, EmitConnection ''B'' False], None)"
  by (simp add: ws_eval)

text \<open>
  The TCP backend returns from its loop after destroying the socket, so the rest of the
  chunk is not looked at.
\<close>

lemma tcp_invalid_hello_stops_the_loop:
  "tcp_onData parseHelloB 1 [] (newWire False, tcpNode)
      (encodeFrame [0x78] @ encodeFrame helloB_text) =
     (encodeFrame helloB_text, (newWire False, tcpNode),
      [EmitError TcpInvalidHello, SocketDestroy 1])"
  by (simp add: tcp_eval)

section \<open>Starting a client-mode WebSocketTransport\<close>





lemma ws_after_state [simp]: "fst (snd (ws_after ev r)) = fst (snd r)"
  by (cases r) (simp add: ws_after_def)










section \<open>The dial ledger\<close>

text \<open>
  The ledger and the pending attempts agree: every pending attempt is the ledger entry of
  its key, every ledger entry is a pending attempt, and the sockets of pending attempts
  were created before. It holds when both are empty, and every operation of the transport
  keeps it except \<open>stop\<close>, which empties the ledger and leaves the attempts pending.
\<close>

definition dialInv :: "tcp_transport \<Rightarrow> bool" where
  "dialInv T =
     (distinct (map fst (pendingDials T)) \<and> distinct (map fst (dialing T)) \<and>
      list_all (\<lambda>ak. map_of (dialing T) (snd ak) = Some (fst ak) \<and> fst ak < socketsCreated T)
        (pendingDials T) \<and>
      list_all (\<lambda>ka. map_of (pendingDials T) (snd ka) = Some (fst ka)) (dialing T))"

lemma ball_pairs: "(\<forall>x\<in>S. P x) = (\<forall>a b. (a, b) \<in> S \<longrightarrow> P (a, b))"
  by auto

lemma dialInv_maps:
  "dialInv T =
     (distinct (map fst (pendingDials T)) \<and> distinct (map fst (dialing T)) \<and>
      (\<forall>a key. map_of (pendingDials T) a = Some key \<longrightarrow>
         map_of (dialing T) key = Some a \<and> a < socketsCreated T) \<and>
      (\<forall>key a. map_of (dialing T) key = Some a \<longrightarrow> map_of (pendingDials T) a = Some key))"
proof (cases "distinct (map fst (pendingDials T)) \<and> distinct (map fst (dialing T))")
  case False
  then show ?thesis by (auto simp add: dialInv_def)
next
  case True
  then have p: "\<And>a key. (map_of (pendingDials T) a = Some key) = ((a, key) \<in> set (pendingDials T))"
    and d: "\<And>key a. (map_of (dialing T) key = Some a) = ((key, a) \<in> set (dialing T))"
    by simp_all
  show ?thesis
    unfolding dialInv_def list_all_iff p d ball_pairs [of "set (pendingDials T)"]
      ball_pairs [of "set (dialing T)"]
    by simp
qed

lemma dialInv_fresh:
  assumes "dialInv T"
  shows "socketsCreated T \<notin> fst ` set (pendingDials T)"
proof
  note inv = assms [unfolded dialInv_maps]
  assume "socketsCreated T \<in> fst ` set (pendingDials T)"
  then obtain k where "(socketsCreated T, k) \<in> set (pendingDials T)" by auto
  moreover have "distinct (map fst (pendingDials T))" using inv by blast
  ultimately have "map_of (pendingDials T) (socketsCreated T) = Some k"
    by (rule map_of_is_SomeI [rotated])
  then have "socketsCreated T < socketsCreated T"
    using inv by blast
  then show False by simp
qed

lemma tcp_dial_join:
  assumes "dialInv T" "map_of (pendingDials T) a = Some key"
  shows "tcp_dial key T = (T, a, [])"
proof -
  note inv = assms(1) [unfolded dialInv_maps]
  have "map_of (dialing T) key = Some a"
    using inv assms(2) by blast
  then show ?thesis by (simp add: tcp_dial_def)
qed

lemma tcp_dial_fresh:
  assumes "map_of (dialing T) key = None"
  shows "tcp_dial key T =
     (T\<lparr>dialing := AList.update key (socketsCreated T) (dialing T),
        pendingDials := pendingDials T @ [(socketsCreated T, key)],
        socketsCreated := socketsCreated T + 1\<rparr>,
      socketsCreated T, [NetConnect (socketsCreated T) key])"
  using assms by (simp add: tcp_dial_def)

lemma map_of_snoc_fresh:
  "a \<notin> fst ` set xs \<Longrightarrow> map_of (xs @ [(a, k)]) = (map_of xs)(a \<mapsto> k)"
  by (induction xs) auto

lemma dialInv_dial:
  assumes "dialInv T"
  shows "dialInv (fst (tcp_dial key T))"
proof (cases "map_of (dialing T) key")
  case (Some a)
  then show ?thesis using assms by (simp add: tcp_dial_def)
next
  case None
  let ?n = "socketsCreated T"
  let ?T' = "T\<lparr>dialing := AList.update key ?n (dialing T),
        pendingDials := pendingDials T @ [(?n, key)], socketsCreated := ?n + 1\<rparr>"
  note f = dialInv_fresh [OF assms]
  note inv = assms [unfolded dialInv_maps]
  have mp: "map_of (pendingDials ?T') = (map_of (pendingDials T))(?n \<mapsto> key)"
    using map_of_snoc_fresh [OF f] by simp
  have md: "map_of (dialing ?T') = (map_of (dialing T))(key \<mapsto> ?n)"
    by (simp add: update_conv')
  have nk: "\<And>a. map_of (pendingDials T) a \<noteq> Some key"
  proof
    fix a
    assume "map_of (pendingDials T) a = Some key"
    then have "map_of (dialing T) key = Some a" using inv by blast
    then show False using None by simp
  qed
  have lt: "\<And>a k. map_of (pendingDials T) a = Some k \<Longrightarrow> a < ?n"
    using inv by blast
  have d1: "distinct (map fst (pendingDials ?T'))"
    using inv f by simp
  have d2: "distinct (map fst (dialing ?T'))"
    using inv by (simp add: distinct_update)
  have c3: "\<forall>a k. map_of (pendingDials ?T') a = Some k \<longrightarrow>
              map_of (dialing ?T') k = Some a \<and> a < socketsCreated ?T'"
  proof (intro allI impI)
    fix a k
    assume h: "map_of (pendingDials ?T') a = Some k"
    show "map_of (dialing ?T') k = Some a \<and> a < socketsCreated ?T'"
    proof (cases "a = ?n")
      case True
      then have "k = key" using h unfolding mp by simp
      then show ?thesis using True unfolding md by simp
    next
      case False
      then have o: "map_of (pendingDials T) a = Some k" using h unfolding mp by simp
      then have "k \<noteq> key" using nk by blast
      moreover have "map_of (dialing T) k = Some a" using o inv by blast
      moreover have "a < ?n" using o lt by blast
      ultimately show ?thesis unfolding md by simp
    qed
  qed
  have c4: "\<forall>k a. map_of (dialing ?T') k = Some a \<longrightarrow> map_of (pendingDials ?T') a = Some k"
  proof (intro allI impI)
    fix k a
    assume h: "map_of (dialing ?T') k = Some a"
    show "map_of (pendingDials ?T') a = Some k"
    proof (cases "k = key")
      case True
      then have "a = ?n" using h unfolding md by simp
      then show ?thesis using True unfolding mp by simp
    next
      case False
      then have "map_of (dialing T) k = Some a" using h unfolding md by simp
      then have o: "map_of (pendingDials T) a = Some k" using inv by blast
      then have "a \<noteq> ?n" using lt [OF o] by simp
      then show ?thesis using o unfolding mp by simp
    qed
  qed
  have "dialInv ?T'"
    unfolding dialInv_maps using d1 d2 c3 c4 by blast
  then show ?thesis unfolding tcp_dial_fresh [OF None] by simp
qed

lemma dialInv_settle:
  assumes "dialInv T"
  shows "dialInv (tcp_settle a T)"
proof (cases "map_of (pendingDials T) a")
  case None
  then show ?thesis using assms by (simp add: tcp_settle_def)
next
  case (Some key)
  let ?T' = "T\<lparr>dialing := AList.delete key (dialing T),
                pendingDials := AList.delete a (pendingDials T)\<rparr>"
  note inv = assms [unfolded dialInv_maps]
  have s: "tcp_settle a T = ?T'"
    using Some by (simp add: tcp_settle_def)
  have mp: "map_of (pendingDials ?T') = (map_of (pendingDials T))(a := None)"
    by (simp add: delete_conv')
  have md: "map_of (dialing ?T') = (map_of (dialing T))(key := None)"
    by (simp add: delete_conv')
  have ka: "map_of (dialing T) key = Some a" using Some inv by blast
  have d1: "distinct (map fst (pendingDials ?T'))"
    using inv by (simp add: distinct_delete)
  have d2: "distinct (map fst (dialing ?T'))"
    using inv by (simp add: distinct_delete)
  have c3: "\<forall>b k. map_of (pendingDials ?T') b = Some k \<longrightarrow>
              map_of (dialing ?T') k = Some b \<and> b < socketsCreated ?T'"
  proof (intro allI impI)
    fix b k
    assume h: "map_of (pendingDials ?T') b = Some k"
    then have ne: "b \<noteq> a" unfolding mp by (auto split: if_splits)
    then have o: "map_of (pendingDials T) b = Some k" using h unfolding mp by simp
    then have q: "map_of (dialing T) k = Some b" "b < socketsCreated T" using inv by blast+
    have "k \<noteq> key" using q(1) ka ne by auto
    then show "map_of (dialing ?T') k = Some b \<and> b < socketsCreated ?T'"
      using q unfolding md by simp
  qed
  have c4: "\<forall>k b. map_of (dialing ?T') k = Some b \<longrightarrow> map_of (pendingDials ?T') b = Some k"
  proof (intro allI impI)
    fix k b
    assume h: "map_of (dialing ?T') k = Some b"
    then have ne: "k \<noteq> key" unfolding md by (auto split: if_splits)
    then have o: "map_of (dialing T) k = Some b" using h unfolding md by simp
    then have q: "map_of (pendingDials T) b = Some k" using inv by blast
    have "b \<noteq> a" using q Some ne by auto
    then show "map_of (pendingDials ?T') b = Some k" using q unfolding mp by simp
  qed
  have "dialInv ?T'"
    unfolding dialInv_maps using d1 d2 c3 c4 by blast
  then show ?thesis unfolding s .
qed

lemma tcp_settle_removes:
  assumes "map_of (pendingDials T) a = Some key"
  shows "map_of (dialing (tcp_settle a T)) key = None \<and>
         map_of (pendingDials (tcp_settle a T)) a = None"
  using assms by (simp add: tcp_settle_def delete_conv')

lemma dialInv_start: "dialInv T \<Longrightarrow> dialInv (tcp_start T)"
  by (simp add: tcp_start_def dialInv_def del: map_of_eq_Some_iff)

lemma tcp_send_address:
  assumes "started T" "map_of (peers T) to = None" "parseTarget to = Inr (Some key)"
  shows "tcp_send parseTarget to bytes T =
     Inr (fst (tcp_dial key T), snd (snd (tcp_dial key T)), Some (fst (snd (tcp_dial key T))))"
  using assms by (simp add: tcp_send_def split: prod.splits)


lemma tcp_drain_keeps:
  assumes "\<And>T ps. Q T \<Longrightarrow> Q (T\<lparr>peers := ps\<rparr>)"
  shows "Q (snd s) \<Longrightarrow> Q (snd (fst (snd (tcp_drain jp c buf s))))"
proof (induction jp c buf s rule: tcp_drain.induct)
  case (1 jp c buf s)
  note d = \<open>Q (snd s)\<close>
  show ?case
  proof (cases "length buf < 4 \<or> readUInt32BE buf 0 > maxFrameBytes (snd s) \<or>
                length buf < 4 + readUInt32BE buf 0")
    case True
    then show ?thesis using d by (subst tcp_drain.simps) auto
  next
    case False
    then have f: "\<not> length buf < 4" "\<not> readUInt32BE buf 0 > maxFrameBytes (snd s)"
      "\<not> length buf < 4 + readUInt32BE buf 0" by auto
    show ?thesis
    proof (cases "remotePeerId (fst s)")
      case (Some r)
      from "1.IH"(2) [OF f Some d] show ?thesis
        by (subst tcp_drain.simps) (simp add: f Some)
    next
      case None
      show ?thesis
      proof (cases "jp (take (readUInt32BE buf 0) (drop 4 buf))")
        case n: None
        then show ?thesis using d by (subst tcp_drain.simps) (simp add: f None)
      next
        case (Some obj)
        show ?thesis
        proof (cases "helloPeerId obj")
          case h: None
          then show ?thesis using d by (subst tcp_drain.simps) (simp add: f None Some)
        next
          case h: (Some p)
          have "Q (snd ((fst s)\<lparr>remotePeerId := Some p\<rparr>,
                  (snd s)\<lparr>peers := AList.update p c (peers (snd s))\<rparr>))"
            using assms [OF d] by simp
          from "1.IH"(1) [OF f None Some h this] show ?thesis
            by (subst tcp_drain.simps) (simp add: f None Some h)
        qed
      qed
    qed
  qed
qed

lemma dialInv_peers: "dialInv T \<Longrightarrow> dialInv (T\<lparr>peers := ps\<rparr>)"
  by (simp add: dialInv_def del: map_of_eq_Some_iff)

lemma dialInv_drain: "dialInv T \<Longrightarrow> dialInv (snd (fst (snd (tcp_drain jp c buf (w, T)))))"
  using tcp_drain_keeps [of dialInv "(w, T)" jp c buf] dialInv_peers by simp

lemma dialInv_cleanup: "dialInv T \<Longrightarrow> dialInv (snd (fst (tcp_cleanup c (w, T))))"
  by (simp add: tcp_cleanup_def dialInv_peers split: option.splits)

lemma dialInv_initial: "dialing T = [] \<Longrightarrow> pendingDials T = [] \<Longrightarrow> dialInv T"
  by (simp add: dialInv_def)

text \<open>
  What the dial coordinator does as long as the ledger and the pending attempts agree
  (\<open>dialInv\<close>): a \<^verbatim>\<open>_dial\<close> for a key with a pending attempt returns that attempt, changes
  nothing and creates no socket, and so does a \<open>send\<close> to an address with that key; a key
  has at most one pending attempt; the ledger has an entry for a key exactly while an
  attempt for it is pending; when the attempt settles, resolved or rejected, the entry is
  gone; and a \<^verbatim>\<open>_dial\<close> for a key without an entry creates one new socket and enters it.
  The agreement holds at the start and is kept by \<^verbatim>\<open>_dial\<close>, by settling, by \<open>start\<close> and by
  the socket handlers. \<open>tcp_stop\<close> is missing from that list.
\<close>

lemma dial_ledger_shares_and_clears:
  assumes "dialInv T"
  shows "(map_of (pendingDials T) a = Some key \<longrightarrow>
            tcp_dial key T = (T, a, []) \<and>
            (started T \<and> map_of (peers T) to = None \<and> parseTarget to = Inr (Some key) \<longrightarrow>
               tcp_send parseTarget to bytes T = Inr (T, [], Some a)) \<and>
            (map_of (pendingDials T) b = Some key \<longrightarrow> b = a) \<and>
            map_of (dialing (tcp_settle a T)) key = None \<and>
            map_of (pendingDials (tcp_settle a T)) a = None) \<and>
         (map_of (dialing T) key = Some a) = (map_of (pendingDials T) a = Some key) \<and>
         (map_of (dialing T) key = None \<longrightarrow>
            tcp_dial key T =
              (T\<lparr>dialing := AList.update key (socketsCreated T) (dialing T),
                 pendingDials := pendingDials T @ [(socketsCreated T, key)],
                 socketsCreated := socketsCreated T + 1\<rparr>,
               socketsCreated T, [NetConnect (socketsCreated T) key])) \<and>
         dialInv (fst (tcp_dial key T)) \<and> dialInv (tcp_settle a T) \<and> dialInv (tcp_start T) \<and>
         dialInv (snd (fst (snd (tcp_drain jsonParse c buf (w, T))))) \<and>
         dialInv (snd (fst (tcp_cleanup c (w, T)))) \<and>
         (dialing T0 = [] \<and> pendingDials T0 = [] \<longrightarrow> dialInv T0)"
proof -
  note inv = assms [unfolded dialInv_maps]
  have eq: "(map_of (dialing T) key = Some a) = (map_of (pendingDials T) a = Some key)"
    using inv by blast
  have p1: "map_of (pendingDials T) a = Some key \<longrightarrow>
            tcp_dial key T = (T, a, []) \<and>
            (started T \<and> map_of (peers T) to = None \<and> parseTarget to = Inr (Some key) \<longrightarrow>
               tcp_send parseTarget to bytes T = Inr (T, [], Some a)) \<and>
            (map_of (pendingDials T) b = Some key \<longrightarrow> b = a) \<and>
            map_of (dialing (tcp_settle a T)) key = None \<and>
            map_of (pendingDials (tcp_settle a T)) a = None"
  proof
    assume h: "map_of (pendingDials T) a = Some key"
    have j: "tcp_dial key T = (T, a, [])" by (rule tcp_dial_join [OF assms h])
    have s: "started T \<and> map_of (peers T) to = None \<and> parseTarget to = Inr (Some key) \<longrightarrow>
               tcp_send parseTarget to bytes T = Inr (T, [], Some a)"
      using tcp_send_address [of T to parseTarget key bytes] j by simp
    have u: "map_of (pendingDials T) b = Some key \<longrightarrow> b = a"
    proof
      assume "map_of (pendingDials T) b = Some key"
      then have "map_of (dialing T) key = Some b" using inv by blast
      moreover have "map_of (dialing T) key = Some a" using h inv by blast
      ultimately show "b = a" by simp
    qed
    show "tcp_dial key T = (T, a, []) \<and>
            (started T \<and> map_of (peers T) to = None \<and> parseTarget to = Inr (Some key) \<longrightarrow>
               tcp_send parseTarget to bytes T = Inr (T, [], Some a)) \<and>
            (map_of (pendingDials T) b = Some key \<longrightarrow> b = a) \<and>
            map_of (dialing (tcp_settle a T)) key = None \<and>
            map_of (pendingDials (tcp_settle a T)) a = None"
      using j s u tcp_settle_removes [OF h] by blast
  qed
  have p3: "map_of (dialing T) key = None \<longrightarrow>
            tcp_dial key T =
              (T\<lparr>dialing := AList.update key (socketsCreated T) (dialing T),
                 pendingDials := pendingDials T @ [(socketsCreated T, key)],
                 socketsCreated := socketsCreated T + 1\<rparr>,
               socketsCreated T, [NetConnect (socketsCreated T) key])"
    using tcp_dial_fresh [of T key] by blast
  have p4: "dialInv (fst (tcp_dial key T))" "dialInv (tcp_settle a T)" "dialInv (tcp_start T)"
    "dialInv (snd (fst (snd (tcp_drain jsonParse c buf (w, T)))))"
    "dialInv (snd (fst (tcp_cleanup c (w, T))))"
    using assms
    by (rule dialInv_dial dialInv_settle dialInv_start dialInv_drain dialInv_cleanup)+
  have p5: "dialing T0 = [] \<and> pendingDials T0 = [] \<longrightarrow> dialInv T0"
    using dialInv_initial [of T0] by blast
  show ?thesis using p1 eq p3 p4 p5 by blast
qed

lemmas dial_eval = tcp_dial_def tcp_settle_def tcp_send_def tcp_start_def tcp_stop_def tcpNode_def
  parseTargetH1_def dialInv_def AList.update.simps AList.delete_eq

lemma dial_ledger_shares_and_clears_example:
  "dialInv (fst (tcp_dial ''tcp://h:1'' tcpNode)) \<and>
   map_of (pendingDials (fst (tcp_dial ''tcp://h:1'' tcpNode))) 0 = Some ''tcp://h:1'' \<and>
   tcp_send parseTargetH1 ''tcp://h:1'' [7] (fst (tcp_dial ''tcp://h:1'' tcpNode)) =
     Inr (fst (tcp_dial ''tcp://h:1'' tcpNode), [], Some 0) \<and>
   map_of (dialing (tcp_settle 0 (fst (tcp_dial ''tcp://h:1'' tcpNode)))) ''tcp://h:1'' = None \<and>
   snd (snd (tcp_dial ''tcp://h:1'' (tcp_settle 0 (fst (tcp_dial ''tcp://h:1'' tcpNode))))) =
     [NetConnect 1 ''tcp://h:1'']"
  using dial_ledger_shares_and_clears
    [where T = "fst (tcp_dial ''tcp://h:1'' tcpNode)" and a = 0 and b = 0
       and key = "''tcp://h:1''" and to = "''tcp://h:1''" and parseTarget = parseTargetH1
       and bytes = "[7]" and ?T0.0 = tcpNode and w = identifiedB and c = 1 and buf = "[]"
       and jsonParse = parseHelloB]
  by (simp add: dial_eval)

text \<open>
  Claim C6 says that every \<open>send\<close> to an address while a dial to it is pending shares the
  one attempt, and that the ledger entry of the key goes exactly when the attempt settles.
  The code breaks both when \<open>stop\<close> runs while a dial is pending. \<open>stop\<close> clears the ledger
  but leaves the attempt alive: its socket is not in the registry, so it is not destroyed,
  and its promise stays pending. On a transport that does not listen (so that \<^verbatim>\<open>stop()\<close>
  returns at once): a \<open>send\<close> to \<^verbatim>\<open>tcp://h:1\<close> creates socket 0; after \<open>stop\<close> the entry is gone
  though attempt 0 has not settled; after \<open>start\<close> a second \<open>send\<close> to the same address finds
  no entry and creates socket 1 while attempt 0 is pending; and when attempt 0 settles, its
  \<^verbatim>\<open>finally\<close>, which deletes by key, removes the entry of attempt 1, which is still pending.
\<close>

theorem dial_after_stop_creates_second_socket:
  "tcp_send parseTargetH1 ''tcp://h:1'' [7] tcpDialer =
     Inr (fst (tcp_dial ''tcp://h:1'' tcpDialer), [NetConnect 0 ''tcp://h:1''], Some 0) \<and>
   \<not> tcp_stop_awaits (fst (tcp_dial ''tcp://h:1'' tcpDialer)) \<and>
   snd (tcp_stop (fst (tcp_dial ''tcp://h:1'' tcpDialer))) = [] \<and>
   map_of (pendingDials (tcp_start (fst (tcp_stop (fst (tcp_dial ''tcp://h:1'' tcpDialer))))))
      0 = Some ''tcp://h:1'' \<and>
   map_of (dialing (tcp_start (fst (tcp_stop (fst (tcp_dial ''tcp://h:1'' tcpDialer))))))
      ''tcp://h:1'' = None \<and>
   tcp_send parseTargetH1 ''tcp://h:1'' [7]
      (tcp_start (fst (tcp_stop (fst (tcp_dial ''tcp://h:1'' tcpDialer))))) =
     Inr (fst (tcp_dial ''tcp://h:1''
            (tcp_start (fst (tcp_stop (fst (tcp_dial ''tcp://h:1'' tcpDialer)))))),
          [NetConnect 1 ''tcp://h:1''], Some 1) \<and>
   pendingDials (fst (tcp_dial ''tcp://h:1''
      (tcp_start (fst (tcp_stop (fst (tcp_dial ''tcp://h:1'' tcpDialer))))))) =
     [(0, ''tcp://h:1''), (1, ''tcp://h:1'')] \<and>
   dialing (tcp_settle 0 (fst (tcp_dial ''tcp://h:1''
      (tcp_start (fst (tcp_stop (fst (tcp_dial ''tcp://h:1'' tcpDialer)))))))) = [] \<and>
   pendingDials (tcp_settle 0 (fst (tcp_dial ''tcp://h:1''
      (tcp_start (fst (tcp_stop (fst (tcp_dial ''tcp://h:1'' tcpDialer)))))))) =
     [(1, ''tcp://h:1'')]"
  by (simp add: dial_eval tcp_stop_awaits_def tcpDialer_def)

end
